theory Spec2Isabelle
  imports Complex_Main "HOL-Library.Log_Nat"
begin

section \<open>Data model\<close>

text \<open>
  The entities of \<^verbatim>\<open>src/database/entities\<close>, restricted to the columns the services
  \<^verbatim>\<open>sales.service.ts\<close> and \<^verbatim>\<open>inventory.service.ts\<close> read or write.

  Conventions of the embedding:
  \<^item> a \<^verbatim>\<open>uuid\<close> column is a \<open>string\<close>; a nullable column is an \<open>option\<close>;
  \<^item> an \<^verbatim>\<open>int\<close> column (stock quantities, line quantities) is an \<open>int\<close>;
  \<^item> a \<^verbatim>\<open>decimal\<close> column (prices, amounts) is a \<open>rat\<close>, the decimal value it holds;
  \<^item> a JavaScript \<^verbatim>\<open>number\<close> is a \<open>rat\<close> too, the value of an IEEE 754 double; the
    arithmetic of the services on numbers rounds every result to a double (section
    ``Numbers''). A stock or line quantity is a whole number that a double holds exactly;
  \<^item> the sales table keeps the numbers of a row as the entity has them; what a
    \<^verbatim>\<open>decimal(12,2)\<close> column makes of a number when the row is written (rounding to two
    places, rejecting a value out of range) is not modelled;
  \<^item> a timestamp is an \<open>int\<close>;
  \<^item> the tables \<^verbatim>\<open>products\<close>, \<^verbatim>\<open>users\<close> and \<^verbatim>\<open>outlets\<close> are only ever read by primary
    key, so they are maps from the key to the row (the row does not repeat its key);
    the tables \<^verbatim>\<open>sales\<close>, \<^verbatim>\<open>sales_products\<close> and \<^verbatim>\<open>inventories\<close> are also listed and
    filtered, so they are lists of rows;
  \<^item> what a service throws is a value: every operation returns the result (\<open>Inl\<close> what was
    thrown) together with the store as it is when the operation stops. The services open
    no transaction, so what was saved before a \<^verbatim>\<open>throw\<close> stays saved.
\<close>

type_synonym uuid = string

datatype SalesStatus = COMPLETED | RETURNED | PENDING | CANCELLED

datatype PaymentChannel = CASH | TRANSFER | CARD | OTHER | FLUTTER

datatype UserRole = ADMIN | OWNER | STORE_EXECUTIVE | SALES_REP

datatype InventoryStatus = Inventory_PENDING | Inventory_COMPLETED | Inventory_RECONCILED

record Product =
  name :: string
  price :: rat
  quantity :: int
  product_outletId :: uuid
  product_businessId :: uuid

record User =
  email :: string
  userType :: UserRole
  user_businessId :: "uuid option"
  user_outletId :: "uuid option"

record Outlet =
  outlet_name :: string
  outlet_businessId :: uuid

record SalesProduct =
  salesId :: uuid
  productId :: uuid
  productName :: string
  sp_quantity :: int
  priceAtSale :: rat

record Sales =
  sales_id :: uuid
  totalAmount :: rat
  discount :: "rat option"
  status :: SalesStatus
  remainingToPay :: "rat option"
  amountPaid :: rat
  paymentChannel :: PaymentChannel
  salesPersonId :: "uuid option"
  sales_createdAt :: int

record InventoryProduct =
  ip_productId :: uuid
  ip_name :: string
  counted :: int
  amountInDb :: int
  reconciled :: bool

record Inventory =
  inventory_id :: uuid
  inventory_outletId :: uuid
  inventory_products :: "InventoryProduct list"
  inventory_status :: InventoryStatus
  actionerId :: "uuid option"
  inventory_createdAt :: int

text \<open>
  The store: one field for each repository the two services hold, and the product updates
  that were sent to the store without being awaited (see \<open>updateProductQuantity\<close>).
\<close>

record store =
  productRepository :: "uuid \<rightharpoonup> Product"
  userRepository :: "uuid \<rightharpoonup> User"
  outletRepository :: "uuid \<rightharpoonup> Outlet"
  salesRepository :: "Sales list"
  salesProductRepository :: "SalesProduct list"
  inventoryRepository :: "Inventory list"
  unawaitedUpdates :: "(uuid \<times> int) list"

text \<open>
  What the two services throw. An \<^verbatim>\<open>ApiError\<close> has a message (here with the values it
  interpolates) and the HTTP status code passed to the constructor. TypeORM throws an
  \<^verbatim>\<open>EntityPropertyNotFoundError\<close> when find options name a property the entity does not
  have in that role; it carries the property path.
\<close>

datatype message =
    Sales_person_not_found
  | Product_not_found_in_your_assigned_outlet uuid
  | Insufficient_stock string int
  | Sale_record_not_found
  | Only_returned_status_change_supported
  | Outlet_not_found
  | Actioner_user_not_found
  | Product_not_found_in_this_outlet uuid
  | Inventory_record_not_found
  | Inventory_already_reconciled

datatype thrown = ApiError message nat | EntityPropertyNotFoundError string


section \<open>Numbers\<close>

text \<open>
  The services compute amounts with JavaScript numbers. \<open>double x\<close> is the double nearest
  to \<open>x\<close>, ties going to the even significand (the rounding of every IEEE 754 binary64
  operation): with \<open>e\<close> the exponent of \<open>x\<close>, that is \<open>2 ^ e \<le> \<bar>x\<bar> < 2 ^ (e + 1)\<close>, the
  value \<open>x\<close> is scaled to 53 significant bits, rounded to a whole number and scaled back.
  Overflow to infinity and subnormal numbers are outside the model.
\<close>

definition pow2 :: "int \<Rightarrow> rat" where
  "pow2 k = (if 0 \<le> k then 2 ^ nat k else 1 / 2 ^ nat (- k))"

definition exponent :: "rat \<Rightarrow> int" where
  "exponent x =
     (if 1 \<le> \<bar>x\<bar> then bitlen \<lfloor>\<bar>x\<bar>\<rfloor> - 1
      else - bitlen (\<lceil>1 / \<bar>x\<bar>\<rceil> - 1))"

definition roundTiesToEven :: "rat \<Rightarrow> int" where
  "roundTiesToEven y =
     (let f = \<lfloor>y\<rfloor>; r = y - of_int f
      in if r < 1 / 2 then f else if 1 / 2 < r then f + 1 else if even f then f else f + 1)"

definition double :: "rat \<Rightarrow> rat" where
  "double x =
     (if x = 0 then 0
      else let k = 52 - exponent x in of_int (roundTiesToEven (x * pow2 k)) / pow2 k)"

text \<open>The operators \<^verbatim>\<open>+\<close>, \<^verbatim>\<open>-\<close> and \<^verbatim>\<open>*\<close> on two numbers.\<close>

definition js_add :: "rat \<Rightarrow> rat \<Rightarrow> rat" where
  "js_add a b = double (a + b)"

definition js_sub :: "rat \<Rightarrow> rat \<Rightarrow> rat" where
  "js_sub a b = double (a - b)"

definition js_mul :: "rat \<Rightarrow> rat \<Rightarrow> rat" where
  "js_mul a b = double (a * b)"

section \<open>Sales service\<close>

subsection \<open>recordSale\<close>

record SaleItem =
  item_productId :: uuid
  item_quantity :: int

text \<open>The parameter \<^verbatim>\<open>saleData\<close> (the customer snapshot is not modelled).\<close>

record SaleData =
  sd_products :: "SaleItem list"
  sd_discount :: "rat option"
  sd_amountPaid :: rat
  sd_paymentChannel :: PaymentChannel
  sd_status :: "SalesStatus option"

text \<open>
  \<^verbatim>\<open>productRepository.findOneBy({ id, outletId })\<close>. TypeORM leaves a find option whose
  value is \<^verbatim>\<open>null\<close> or \<^verbatim>\<open>undefined\<close> out of the WHERE clause, so a sales person with no
  outlet is matched against the id alone.
\<close>

definition findProductInOutlet :: "store \<Rightarrow> uuid \<Rightarrow> uuid option \<Rightarrow> Product option" where
  "findProductInOutlet s pid oid =
     (case productRepository s pid of
        None \<Rightarrow> None
      | Some p \<Rightarrow>
          (case oid of
             None \<Rightarrow> Some p
           | Some outlet \<Rightarrow> if product_outletId p = outlet then Some p else None))"

text \<open>\<^verbatim>\<open>productRepository.save(product)\<close> for a product loaded under the key \<open>pid\<close>.\<close>

definition saveProduct :: "store \<Rightarrow> uuid \<Rightarrow> Product \<Rightarrow> store" where
  "saveProduct s pid p = s\<lparr>productRepository := (productRepository s)(pid \<mapsto> p)\<rparr>"

text \<open>
  The \<^verbatim>\<open>for (const item of saleData.products)\<close> loop, lines 36 to 57. The accumulators are
  \<^verbatim>\<open>totalAmount\<close> and \<^verbatim>\<open>salesProducts\<close>; the store is threaded through because each
  iteration saves the decremented product before the next one is checked. A \<^verbatim>\<open>throw\<close>
  stops the loop with the store as the earlier iterations left it.
  \<^verbatim>\<open>salesProductRepository.create\<close> builds the line in memory only, with no
  \<^verbatim>\<open>salesId\<close> yet (here the empty string). In
  \<^verbatim>\<open>totalAmount += product.price * item.quantity\<close> the price, a decimal column, becomes
  the nearest double, and the product and the sum are rounded in turn.
\<close>

fun recordSale_loop ::
  "uuid option \<Rightarrow> SaleItem list \<Rightarrow> rat \<Rightarrow> SalesProduct list \<Rightarrow> store
     \<Rightarrow> (thrown + rat \<times> SalesProduct list) \<times> store" where
  "recordSale_loop oid [] tot sps s = (Inr (tot, sps), s)"
| "recordSale_loop oid (item # items) tot sps s =
     (case findProductInOutlet s (item_productId item) oid of
        None \<Rightarrow>
          (Inl (ApiError (Product_not_found_in_your_assigned_outlet (item_productId item)) 404), s)
      | Some product \<Rightarrow>
          if quantity product < item_quantity item
          then (Inl (ApiError (Insufficient_stock (name product) (quantity product)) 400), s)
          else
            recordSale_loop oid items
              (js_add tot (js_mul (double (price product)) (of_int (item_quantity item))))
              (sps @ [\<lparr>salesId = [], productId = item_productId item,
                       productName = name product, sp_quantity = item_quantity item,
                       priceAtSale = price product\<rparr>])
              (saveProduct s (item_productId item)
                 (product\<lparr>quantity := quantity product - item_quantity item\<rparr>)))"

text \<open>
  \<^verbatim>\<open>if (saleData.discount) { totalAmount -= saleData.discount; }\<close>: an absent discount
  and the discount \<open>0\<close> are both falsy.
\<close>

definition applyDiscount :: "rat option \<Rightarrow> rat \<Rightarrow> rat" where
  "applyDiscount d tot =
     (case d of None \<Rightarrow> tot | Some v \<Rightarrow> if v = 0 then tot else js_sub tot v)"

text \<open>
  The entity of lines 63 to 70, with the two columns the store fills in: the generated
  primary key \<open>newId\<close> and the \<^verbatim>\<open>@CreateDateColumn\<close> value \<open>now\<close>. The entity is built
  from \<^verbatim>\<open>...saleData\<close>, so a \<^verbatim>\<open>status\<close> in the request is the status of the row, and the
  column default \<^verbatim>\<open>COMPLETED\<close> applies only when the request has none.
\<close>

definition createSale :: "uuid \<Rightarrow> int \<Rightarrow> uuid \<Rightarrow> SaleData \<Rightarrow> rat \<Rightarrow> Sales" where
  "createSale newId now salesPersonId' saleData totalAmount' =
     \<lparr>sales_id = newId,
      totalAmount = totalAmount',
      discount = sd_discount saleData,
      status = (case sd_status saleData of None \<Rightarrow> COMPLETED | Some st \<Rightarrow> st),
      remainingToPay = Some (js_sub totalAmount' (sd_amountPaid saleData)),
      amountPaid = sd_amountPaid saleData,
      paymentChannel = sd_paymentChannel saleData,
      salesPersonId = Some salesPersonId',
      sales_createdAt = now\<rparr>"

text \<open>
  \<^verbatim>\<open>salesRepository.save(newSale)\<close>: the row is inserted, and the insert cascades to the
  lines of its \<^verbatim>\<open>products\<close> relation, which get the sale's id as \<^verbatim>\<open>salesId\<close>.
\<close>

definition cascadeLines :: "Sales \<Rightarrow> SalesProduct list \<Rightarrow> SalesProduct list" where
  "cascadeLines sale sps = map (\<lambda>sp. sp\<lparr>salesId := sales_id sale\<rparr>) sps"

definition insertSale :: "store \<Rightarrow> Sales \<Rightarrow> SalesProduct list \<Rightarrow> store" where
  "insertSale s sale sps =
     s\<lparr>salesRepository := salesRepository s @ [sale],
       salesProductRepository := salesProductRepository s @ cascadeLines sale sps\<rparr>"

text \<open>
  \<^verbatim>\<open>recordSale\<close>. The result is the saved entity: the row together with its
  \<^verbatim>\<open>products\<close> relation.
\<close>

definition recordSale ::
  "store \<Rightarrow> uuid \<Rightarrow> int \<Rightarrow> uuid \<Rightarrow> SaleData \<Rightarrow> (thrown + Sales \<times> SalesProduct list) \<times> store" where
  "recordSale s newId now salesPersonId' saleData =
     (case userRepository s salesPersonId' of
        None \<Rightarrow> (Inl (ApiError Sales_person_not_found 404), s)
      | Some salesPerson \<Rightarrow>
          (case recordSale_loop (user_outletId salesPerson) (sd_products saleData) 0 [] s of
             (Inl e, s1) \<Rightarrow> (Inl e, s1)
           | (Inr (tot, salesProducts), s1) \<Rightarrow>
               let newSale = createSale newId now salesPersonId' saleData
                               (applyDiscount (sd_discount saleData) tot)
               in (Inr (newSale, cascadeLines newSale salesProducts),
                   insertSale s1 newSale salesProducts)))"

subsection \<open>updateSaleStatus\<close>

text \<open>\<^verbatim>\<open>salesRepository.findOneBy({ id: saleId })\<close>: the row with that primary key.\<close>

definition findSale :: "store \<Rightarrow> uuid \<Rightarrow> Sales option" where
  "findSale s saleId = find (\<lambda>r. sales_id r = saleId) (salesRepository s)"

text \<open>\<^verbatim>\<open>salesProductRepository.find({ where: { salesId: sale.id } })\<close>.\<close>

definition findSalesProducts :: "store \<Rightarrow> uuid \<Rightarrow> SalesProduct list" where
  "findSalesProducts s saleId = filter (\<lambda>sp. salesId sp = saleId) (salesProductRepository s)"

text \<open>
  The re-stocking loop, lines 182 to 189: a line whose product no longer exists is
  skipped, every other line adds its quantity back and saves the product.
\<close>

fun restock :: "SalesProduct list \<Rightarrow> store \<Rightarrow> store" where
  "restock [] s = s"
| "restock (sp # sps) s =
     (case productRepository s (productId sp) of
        None \<Rightarrow> restock sps s
      | Some product \<Rightarrow>
          restock sps
            (saveProduct s (productId sp) (product\<lparr>quantity := quantity product + sp_quantity sp\<rparr>)))"

text \<open>\<^verbatim>\<open>salesRepository.save(sale)\<close> for a loaded sale: the row with its id is replaced.\<close>

definition saveSale :: "store \<Rightarrow> Sales \<Rightarrow> store" where
  "saveSale s sale =
     s\<lparr>salesRepository := map (\<lambda>r. if sales_id r = sales_id sale then sale else r) (salesRepository s)\<rparr>"

text \<open>
  \<^verbatim>\<open>updateSaleStatus\<close>, with the source's order of checks: not found; same status (the
  sale is returned as it is, "No change needed"); a target other than \<^verbatim>\<open>RETURNED\<close>;
  re-stocking; the status write.
\<close>

definition updateSaleStatus :: "store \<Rightarrow> uuid \<Rightarrow> SalesStatus \<Rightarrow> (thrown + Sales) \<times> store" where
  "updateSaleStatus s saleId newStatus =
     (case findSale s saleId of
        None \<Rightarrow> (Inl (ApiError Sale_record_not_found 404), s)
      | Some sale \<Rightarrow>
          if status sale = newStatus then (Inr sale, s)
          else if newStatus \<noteq> RETURNED
          then (Inl (ApiError Only_returned_status_change_supported 400), s)
          else
            let s1 = (if newStatus = RETURNED \<and> status sale \<noteq> RETURNED
                      then restock (findSalesProducts s (sales_id sale)) s
                      else s);
                sale' = sale\<lparr>status := newStatus\<rparr>
            in (Inr sale', saveSale s1 sale'))"

section \<open>Inventory service\<close>

subsection \<open>recordInventory\<close>

record CountItem =
  ci_productId :: uuid
  ci_counted :: int

text \<open>
  The loop of lines 643 to 655: each product is looked up in the outlet (here the
  \<^verbatim>\<open>outletId\<close> is a given string, so it is always part of the WHERE clause) and its
  current quantity is copied into the line. Nothing is saved in the loop.
\<close>

fun recordInventory_loop ::
  "store \<Rightarrow> uuid \<Rightarrow> CountItem list \<Rightarrow> InventoryProduct list \<Rightarrow> thrown + InventoryProduct list" where
  "recordInventory_loop s oid [] inventoryProducts = Inr inventoryProducts"
| "recordInventory_loop s oid (item # items) inventoryProducts =
     (case findProductInOutlet s (ci_productId item) (Some oid) of
        None \<Rightarrow> Inl (ApiError (Product_not_found_in_this_outlet (ci_productId item)) 404)
      | Some product \<Rightarrow>
          recordInventory_loop s oid items
            (inventoryProducts @
               [\<lparr>ip_productId = ci_productId item, ip_name = name product,
                 counted = ci_counted item, amountInDb = quantity product,
                 reconciled = False\<rparr>]))"

text \<open>\<^verbatim>\<open>recordInventory\<close>; \<open>newId\<close> and \<open>now\<close> are the generated key and creation date.\<close>

definition recordInventory ::
  "store \<Rightarrow> uuid \<Rightarrow> int \<Rightarrow> uuid \<Rightarrow> uuid \<Rightarrow> CountItem list \<Rightarrow> (thrown + Inventory) \<times> store" where
  "recordInventory s newId now outletId' actionerId' productsData =
     (case outletRepository s outletId' of
        None \<Rightarrow> (Inl (ApiError Outlet_not_found 404), s)
      | Some outlet \<Rightarrow>
          (case userRepository s actionerId' of
             None \<Rightarrow> (Inl (ApiError Actioner_user_not_found 404), s)
           | Some actioner \<Rightarrow>
               (case recordInventory_loop s outletId' productsData [] of
                  Inl e \<Rightarrow> (Inl e, s)
                | Inr inventoryProducts \<Rightarrow>
                    let newInventory = \<lparr>inventory_id = newId,
                                         inventory_outletId = outletId',
                                         inventory_products = inventoryProducts,
                                         inventory_status = Inventory_PENDING,
                                         actionerId = Some actionerId',
                                         inventory_createdAt = now\<rparr>
                    in (Inr newInventory,
                        s\<lparr>inventoryRepository := inventoryRepository s @ [newInventory]\<rparr>))))"

subsection \<open>reconcileInventory\<close>

record ReconciledItem =
  ri_productId :: uuid
  reconciledQuantity :: int

text \<open>
  The relations of the \<^verbatim>\<open>Inventory\<close> entity are its two \<^verbatim>\<open>@ManyToOne\<close> properties;
  \<^verbatim>\<open>products\<close> is a \<^verbatim>\<open>jsonb\<close> \<^verbatim>\<open>@Column\<close>.
\<close>

definition Inventory_relations :: "string list" where
  "Inventory_relations = [''outlet'', ''actioner'']"

text \<open>
  \<^verbatim>\<open>inventoryRepository.findOne({ where: { id }, relations })\<close>. TypeORM resolves the
  names in \<^verbatim>\<open>relations\<close> against the entity before it sends any query, and throws for a
  name that is not a relation of the entity.
\<close>

definition findOneInventory :: "store \<Rightarrow> uuid \<Rightarrow> string list \<Rightarrow> thrown + Inventory option" where
  "findOneInventory s inventoryId relations =
     (case find (\<lambda>r. r \<notin> set Inventory_relations) relations of
        Some r \<Rightarrow> Inl (EntityPropertyNotFoundError r)
      | None \<Rightarrow> Inr (find (\<lambda>row. inventory_id row = inventoryId) (inventoryRepository s)))"

text \<open>
  \<^verbatim>\<open>productRepository.update(id, { quantity })\<close> as the source calls it: the promise is
  not awaited, and a failure is caught and logged. When the caller goes on the update has
  been sent and nothing more is known: the model records it among the unawaited updates
  and leaves the product table as it is.
\<close>

definition updateProductQuantity :: "store \<Rightarrow> uuid \<Rightarrow> int \<Rightarrow> store" where
  "updateProductQuantity s pid q = s\<lparr>unawaitedUpdates := unawaitedUpdates s @ [(pid, q)]\<rparr>"

text \<open>
  The callback of \<^verbatim>\<open>inventory.products.map\<close>, lines 764 to 775, run over the lines in
  order: \<^verbatim>\<open>find\<close> takes the first request entry with the line's \<^verbatim>\<open>productId\<close>.
\<close>

fun reconcile_lines ::
  "ReconciledItem list \<Rightarrow> InventoryProduct list \<Rightarrow> store \<Rightarrow> InventoryProduct list \<times> store" where
  "reconcile_lines rps [] s = ([], s)"
| "reconcile_lines rps (item # items) s =
     (case find (\<lambda>rp. ri_productId rp = ip_productId item) rps of
        Some reconciledItem \<Rightarrow>
          (case reconcile_lines rps items
                  (updateProductQuantity s (ip_productId item) (reconciledQuantity reconciledItem)) of
             (rest, s') \<Rightarrow>
               (item\<lparr>counted := reconciledQuantity reconciledItem, reconciled := True\<rparr> # rest, s'))
      | None \<Rightarrow>
          (case reconcile_lines rps items s of (rest, s') \<Rightarrow> (item # rest, s')))"

definition saveInventory :: "store \<Rightarrow> Inventory \<Rightarrow> store" where
  "saveInventory s inventory =
     s\<lparr>inventoryRepository :=
         map (\<lambda>r. if inventory_id r = inventory_id inventory then inventory else r)
           (inventoryRepository s)\<rparr>"

text \<open>
  \<^verbatim>\<open>reconcileInventory\<close>, lines 752 to 789. The record is loaded with
  \<^verbatim>\<open>relations: ['products']\<close>; what follows the load is the source's code in the
  source's order.
\<close>

definition reconcileInventory ::
  "store \<Rightarrow> uuid \<Rightarrow> ReconciledItem list \<Rightarrow> (thrown + Inventory) \<times> store" where
  "reconcileInventory s inventoryId reconciledProductsData =
     (case findOneInventory s inventoryId [''products''] of
        Inl e \<Rightarrow> (Inl e, s)
      | Inr None \<Rightarrow> (Inl (ApiError Inventory_record_not_found 404), s)
      | Inr (Some inventory) \<Rightarrow>
          if inventory_status inventory = Inventory_RECONCILED
          then (Inl (ApiError Inventory_already_reconciled 400), s)
          else
            (case reconcile_lines reconciledProductsData (inventory_products inventory) s of
               (updatedProductsInInventory, s1) \<Rightarrow>
                 let inventory' = inventory\<lparr>inventory_products := updatedProductsInInventory,
                                            inventory_status := Inventory_RECONCILED\<rparr>
                 in (Inr inventory', saveInventory s1 inventory')))"

section \<open>List queries\<close>

text \<open>
  \<^verbatim>\<open>getAllSales\<close> and \<^verbatim>\<open>getAllInventories\<close> build one SQL query: joins, the RBAC
  restriction, the caller's filters (all combined with AND), ORDER BY, OFFSET and LIMIT.
  The model evaluates the WHERE clause on each row of the table. Two things are the
  store's and are parameters of the model:
  \<^item> \<open>search\<close>, the truth value of the free-text condition on a row. It names
    \<^verbatim>\<open>sales.description\<close> and \<^verbatim>\<open>inventory.description\<close>, which the entities do not declare;
  \<^item> \<open>le\<close>, the order of two rows under the column named by \<^verbatim>\<open>sortBy\<close>.
\<close>

record Requester =
  req_id :: uuid
  req_userType :: UserRole
  req_businessId :: "uuid option"
  req_outletId :: "uuid option"

datatype SortOrder = ASC | DESC

record PaginationOptions =
  page :: "int option"
  limit :: "int option"
  sortBy :: "string option"
  sortOrder :: "SortOrder option"

record 'a PaginatedResult =
  data :: "'a list"
  totalItems :: nat
  totalPages :: "int option"
  currentPage :: int
  itemsPerPage :: int

datatype QueryError = QueryFailedError

text \<open>
  SQL equality of a column with a query parameter: it is true only when both are present
  and equal (a comparison with NULL is never true).
\<close>

fun sql_eq :: "'a option \<Rightarrow> 'a option \<Rightarrow> bool" where
  "sql_eq (Some a) (Some b) = (a = b)"
| "sql_eq _ _ = False"

text \<open>JavaScript truthiness of an optional string: absent and empty are falsy.\<close>

fun truthy :: "string option \<Rightarrow> bool" where
  "truthy None = False"
| "truthy (Some v) = (v \<noteq> [])"

text \<open>The string values of the enums, as the columns store them.\<close>

fun SalesStatus_value :: "SalesStatus \<Rightarrow> string" where
  "SalesStatus_value COMPLETED = ''completed''"
| "SalesStatus_value RETURNED = ''returned''"
| "SalesStatus_value PENDING = ''pending''"
| "SalesStatus_value CANCELLED = ''cancelled''"

fun PaymentChannel_value :: "PaymentChannel \<Rightarrow> string" where
  "PaymentChannel_value CASH = ''cash''"
| "PaymentChannel_value TRANSFER = ''transfer''"
| "PaymentChannel_value CARD = ''card''"
| "PaymentChannel_value OTHER = ''other''"
| "PaymentChannel_value FLUTTER = ''flutter''"

fun InventoryStatus_value :: "InventoryStatus \<Rightarrow> string" where
  "InventoryStatus_value Inventory_PENDING = ''pending''"
| "InventoryStatus_value Inventory_COMPLETED = ''completed''"
| "InventoryStatus_value Inventory_RECONCILED = ''reconciled''"

text \<open>ORDER BY: insertion sort under the store's order, reversed for \<^verbatim>\<open>DESC\<close>.\<close>

fun insert_by :: "('a \<Rightarrow> 'a \<Rightarrow> bool) \<Rightarrow> 'a \<Rightarrow> 'a list \<Rightarrow> 'a list" where
  "insert_by le x [] = [x]"
| "insert_by le x (y # ys) = (if le x y then x # y # ys else y # insert_by le x ys)"

definition orderBy :: "('a \<Rightarrow> 'a \<Rightarrow> bool) \<Rightarrow> SortOrder \<Rightarrow> 'a list \<Rightarrow> 'a list" where
  "orderBy le ord rows =
     (let sorted_rows = foldr (insert_by le) rows []
      in case ord of ASC \<Rightarrow> sorted_rows | DESC \<Rightarrow> rev sorted_rows)"

text \<open>
  The destructuring defaults of \<^verbatim>\<open>pagination\<close>, the offset, \<^verbatim>\<open>skip\<close> and \<^verbatim>\<open>take\<close>, and the
  result object. The store rejects a negative OFFSET or LIMIT. \<^verbatim>\<open>Math.ceil\<close> of a division
  by zero is not a number: \<open>totalPages\<close> is \<open>None\<close> there.
\<close>

definition paginate ::
  "(string \<Rightarrow> 'a \<Rightarrow> 'a \<Rightarrow> bool) \<Rightarrow> PaginationOptions \<Rightarrow> 'a list \<Rightarrow> QueryError + 'a PaginatedResult" where
  "paginate le pagination rows =
     (let page' = (case page pagination of None \<Rightarrow> 1 | Some p \<Rightarrow> p);
          limit' = (case limit pagination of None \<Rightarrow> 20 | Some l \<Rightarrow> l);
          sortBy' = (case sortBy pagination of None \<Rightarrow> ''createdAt'' | Some c \<Rightarrow> c);
          sortOrder' = (case sortOrder pagination of None \<Rightarrow> DESC | Some d \<Rightarrow> d);
          offset = (page' - 1) * limit'
      in if offset < 0 \<or> limit' < 0 then Inl QueryFailedError
         else Inr \<lparr>data = take (nat limit') (drop (nat offset) (orderBy (le sortBy') sortOrder' rows)),
                   totalItems = length rows,
                   totalPages = (if limit' = 0 then None
                                 else Some (\<lceil>rat_of_nat (length rows) / rat_of_int limit'\<rceil>)),
                   currentPage = page',
                   itemsPerPage = limit'\<rparr>)"

subsection \<open>getAllSales\<close>

record SalesFilters =
  sf_outletId :: "string option"
  sf_businessId :: "string option"
  sf_salesPersonId :: "string option"
  sf_status :: "string option"
  sf_paymentChannel :: "string option"
  sf_search :: "string option"
  sf_createdAt_start :: "int option"
  sf_createdAt_end :: "int option"

text \<open>\<^verbatim>\<open>leftJoinAndSelect('sales.salesPerson', 'salesPerson')\<close>: NULL when there is none.\<close>

definition salesPersonOf :: "store \<Rightarrow> Sales \<Rightarrow> User option" where
  "salesPersonOf s sale =
     (case salesPersonId sale of None \<Rightarrow> None | Some u \<Rightarrow> userRepository s u)"

definition salesPerson_outletId :: "store \<Rightarrow> Sales \<Rightarrow> uuid option" where
  "salesPerson_outletId s sale =
     (case salesPersonOf s sale of None \<Rightarrow> None | Some u \<Rightarrow> user_outletId u)"

definition salesPerson_businessId :: "store \<Rightarrow> Sales \<Rightarrow> uuid option" where
  "salesPerson_businessId s sale =
     (case salesPersonOf s sale of None \<Rightarrow> None | Some u \<Rightarrow> user_businessId u)"

text \<open>The RBAC restriction, lines 107 to 114; an administrator gets no restriction.\<close>

definition sales_rbac :: "store \<Rightarrow> Requester \<Rightarrow> Sales \<Rightarrow> bool" where
  "sales_rbac s requester sale =
     (if req_userType requester = OWNER
      then sql_eq (salesPerson_businessId s sale) (req_businessId requester)
      else if req_userType requester = STORE_EXECUTIVE
      then sql_eq (salesPerson_outletId s sale) (req_outletId requester)
      else if req_userType requester = SALES_REP
      then sql_eq (salesPersonId sale) (Some (req_id requester))
      else True)"

text \<open>The caller's filters, lines 116 to 147: each one applies only when it is truthy.\<close>

definition sales_filters :: "(string \<Rightarrow> Sales \<Rightarrow> bool) \<Rightarrow> store \<Rightarrow> SalesFilters \<Rightarrow> Sales \<Rightarrow> bool" where
  "sales_filters search s filters sale =
     ((truthy (sf_outletId filters) \<longrightarrow> sql_eq (salesPerson_outletId s sale) (sf_outletId filters)) \<and>
      (truthy (sf_businessId filters) \<longrightarrow> sql_eq (salesPerson_businessId s sale) (sf_businessId filters)) \<and>
      (truthy (sf_salesPersonId filters) \<longrightarrow> sql_eq (salesPersonId sale) (sf_salesPersonId filters)) \<and>
      (truthy (sf_status filters) \<longrightarrow> sql_eq (Some (SalesStatus_value (status sale))) (sf_status filters)) \<and>
      (truthy (sf_paymentChannel filters) \<longrightarrow>
         sql_eq (Some (PaymentChannel_value (paymentChannel sale))) (sf_paymentChannel filters)) \<and>
      (case sf_search filters of None \<Rightarrow> True | Some v \<Rightarrow> v = [] \<or> search v sale) \<and>
      (case sf_createdAt_start filters of None \<Rightarrow> True | Some d \<Rightarrow> d \<le> sales_createdAt sale) \<and>
      (case sf_createdAt_end filters of None \<Rightarrow> True | Some d \<Rightarrow> sales_createdAt sale \<le> d))"

definition getAllSales ::
  "(string \<Rightarrow> Sales \<Rightarrow> bool) \<Rightarrow> (string \<Rightarrow> Sales \<Rightarrow> Sales \<Rightarrow> bool) \<Rightarrow> store
     \<Rightarrow> Requester \<Rightarrow> SalesFilters \<Rightarrow> PaginationOptions \<Rightarrow> QueryError + Sales PaginatedResult" where
  "getAllSales search le s requester filters pagination =
     paginate le pagination
       (filter (\<lambda>sale. sales_rbac s requester sale \<and> sales_filters search s filters sale)
          (salesRepository s))"

subsection \<open>getAllInventories\<close>

record InventoryFilters =
  if_outletId :: "string option"
  if_businessId :: "string option"
  if_status :: "string option"
  if_actionerId :: "string option"
  if_search :: "string option"
  if_createdAt_start :: "int option"
  if_createdAt_end :: "int option"

text \<open>\<^verbatim>\<open>leftJoinAndSelect('inventory.outlet', 'outlet')\<close>, then \<^verbatim>\<open>outlet.businessId\<close>.\<close>

definition inventory_businessId :: "store \<Rightarrow> Inventory \<Rightarrow> uuid option" where
  "inventory_businessId s inventory =
     (case outletRepository s (inventory_outletId inventory) of
        None \<Rightarrow> None
      | Some outlet \<Rightarrow> Some (outlet_businessId outlet))"

text \<open>The RBAC restriction, lines 699 to 704.\<close>

definition inventory_rbac :: "store \<Rightarrow> Requester \<Rightarrow> Inventory \<Rightarrow> bool" where
  "inventory_rbac s requester inventory =
     (if req_userType requester = OWNER
      then sql_eq (inventory_businessId s inventory) (req_businessId requester)
      else if req_userType requester = STORE_EXECUTIVE \<or> req_userType requester = SALES_REP
      then sql_eq (Some (inventory_outletId inventory)) (req_outletId requester)
      else True)"

definition inventory_filters ::
  "(string \<Rightarrow> Inventory \<Rightarrow> bool) \<Rightarrow> store \<Rightarrow> InventoryFilters \<Rightarrow> Inventory \<Rightarrow> bool" where
  "inventory_filters search s filters inventory =
     ((truthy (if_outletId filters) \<longrightarrow> sql_eq (Some (inventory_outletId inventory)) (if_outletId filters)) \<and>
      (truthy (if_businessId filters) \<longrightarrow> sql_eq (inventory_businessId s inventory) (if_businessId filters)) \<and>
      (truthy (if_status filters) \<longrightarrow>
         sql_eq (Some (InventoryStatus_value (inventory_status inventory))) (if_status filters)) \<and>
      (truthy (if_actionerId filters) \<longrightarrow> sql_eq (actionerId inventory) (if_actionerId filters)) \<and>
      (case if_search filters of None \<Rightarrow> True | Some v \<Rightarrow> v = [] \<or> search v inventory) \<and>
      (case if_createdAt_start filters of None \<Rightarrow> True | Some d \<Rightarrow> d \<le> inventory_createdAt inventory) \<and>
      (case if_createdAt_end filters of None \<Rightarrow> True | Some d \<Rightarrow> inventory_createdAt inventory \<le> d))"

definition getAllInventories ::
  "(string \<Rightarrow> Inventory \<Rightarrow> bool) \<Rightarrow> (string \<Rightarrow> Inventory \<Rightarrow> Inventory \<Rightarrow> bool) \<Rightarrow> store
     \<Rightarrow> Requester \<Rightarrow> InventoryFilters \<Rightarrow> PaginationOptions \<Rightarrow> QueryError + Inventory PaginatedResult" where
  "getAllInventories search le s requester filters pagination =
     paginate le pagination
       (filter (\<lambda>inventory. inventory_rbac s requester inventory \<and>
                             inventory_filters search s filters inventory)
          (inventoryRepository s))"

section \<open>Notions used in the statements\<close>

text \<open>The units of product \<open>pid\<close> requested by the lines \<open>items\<close> of a sale.\<close>

definition sold :: "SaleItem list \<Rightarrow> uuid \<Rightarrow> int" where
  "sold items pid = sum_list (map item_quantity (filter (\<lambda>i. item_productId i = pid) items))"

text \<open>The product table of \<open>s\<close> with the lines \<open>items\<close> taken off the stock.\<close>

definition lessStock :: "store \<Rightarrow> SaleItem list \<Rightarrow> uuid \<Rightarrow> Product option" where
  "lessStock s items pid =
     map_option (\<lambda>p. p\<lparr>quantity := quantity p - sold items pid\<rparr>) (productRepository s pid)"

text \<open>The units of product \<open>pid\<close> on the stored lines \<open>sps\<close>.\<close>

definition returned :: "SalesProduct list \<Rightarrow> uuid \<Rightarrow> int" where
  "returned sps pid = sum_list (map sp_quantity (filter (\<lambda>sp. productId sp = pid) sps))"

text \<open>Two stores have the same rows in every table other than \<^verbatim>\<open>products\<close>.\<close>

definition same_rows :: "store \<Rightarrow> store \<Rightarrow> bool" where
  "same_rows s s' \<longleftrightarrow>
     userRepository s' = userRepository s \<and> outletRepository s' = outletRepository s \<and>
     salesRepository s' = salesRepository s \<and>
     salesProductRepository s' = salesProductRepository s \<and>
     inventoryRepository s' = inventoryRepository s \<and>
     unawaitedUpdates s' = unawaitedUpdates s"





text \<open>Invariant 1 of the data model: no product has a negative quantity.\<close>

definition stock_nonneg :: "store \<Rightarrow> bool" where
  "stock_nonneg s \<longleftrightarrow> (\<forall>pid p. productRepository s pid = Some p \<longrightarrow> 0 \<le> quantity p)"

text \<open>Every stored sale line has a quantity of at least one, as validated input gives it.\<close>

definition lines_valid :: "store \<Rightarrow> bool" where
  "lines_valid s \<longleftrightarrow> list_all (\<lambda>sp. 1 \<le> sp_quantity sp) (salesProductRepository s)"

text \<open>
  The four mutating operations as requests, with the values the store generates, and the
  store each one leaves behind, whether it returns or throws.
\<close>

datatype operation =
    RecordSale uuid int uuid SaleData
  | UpdateSaleStatus uuid SalesStatus
  | RecordInventory uuid int uuid uuid "CountItem list"
  | ReconcileInventory uuid "ReconciledItem list"

fun perform :: "operation \<Rightarrow> store \<Rightarrow> store" where
  "perform (RecordSale newId now salesPersonId' saleData) s =
     snd (recordSale s newId now salesPersonId' saleData)"
| "perform (UpdateSaleStatus saleId newStatus) s = snd (updateSaleStatus s saleId newStatus)"
| "perform (RecordInventory newId now outletId' actionerId' productsData) s =
     snd (recordInventory s newId now outletId' actionerId' productsData)"
| "perform (ReconcileInventory inventoryId reconciledProductsData) s =
     snd (reconcileInventory s inventoryId reconciledProductsData)"

text \<open>
  The validated preconditions: \<^verbatim>\<open>@Min(1)\<close> on the quantity of a sale line
  (\<^verbatim>\<open>SalesProductItemDto\<close>) and \<^verbatim>\<open>@Min(0)\<close> on \<^verbatim>\<open>reconciledQuantity\<close>
  (\<^verbatim>\<open>ReconciledProductItemDto\<close>).
\<close>

fun validated :: "operation \<Rightarrow> bool" where
  "validated (RecordSale newId now salesPersonId' saleData) =
     list_all (\<lambda>item. 1 \<le> item_quantity item) (sd_products saleData)"
| "validated (ReconcileInventory inventoryId reconciledProductsData) =
     list_all (\<lambda>rp. 0 \<le> reconciledQuantity rp) reconciledProductsData"
| "validated (UpdateSaleStatus saleId newStatus) = True"
| "validated (RecordInventory newId now outletId' actionerId' productsData) = True"

subsection \<open>A small shop\<close>

text \<open>
  One outlet with two products and a sales representative, as in the scenarios of the
  specification: tea at 5.00 with 10 in stock, and a single mug.
\<close>

definition tea :: Product where
  "tea = \<lparr>name = ''tea'', price = 5, quantity = 10,
          product_outletId = ''o1'', product_businessId = ''b1''\<rparr>"

definition mug :: Product where
  "mug = \<lparr>name = ''mug'', price = 3, quantity = 1,
          product_outletId = ''o1'', product_businessId = ''b1''\<rparr>"

definition rep :: User where
  "rep = \<lparr>email = ''rep@shop'', userType = SALES_REP,
          user_businessId = Some ''b1'', user_outletId = Some ''o1''\<rparr>"

definition shop :: store where
  "shop = \<lparr>productRepository = [''p1'' \<mapsto> tea, ''p2'' \<mapsto> mug],
           userRepository = [''u1'' \<mapsto> rep],
           outletRepository = [''o1'' \<mapsto> \<lparr>outlet_name = ''main'', outlet_businessId = ''b1''\<rparr>],
           salesRepository = [],
           salesProductRepository = [],
           inventoryRepository = [],
           unawaitedUpdates = []\<rparr>"

text \<open>Scenario 1: three teas, discount 2.00, 13.00 paid.\<close>

definition three_teas :: SaleData where
  "three_teas = \<lparr>sd_products = [\<lparr>item_productId = ''p1'', item_quantity = 3\<rparr>],
                 sd_discount = Some 2, sd_amountPaid = 13, sd_paymentChannel = CASH,
                 sd_status = None\<rparr>"

text \<open>A sale of three teas and two mugs: the second line asks for more than is in stock.\<close>

definition teas_and_mugs :: SaleData where
  "teas_and_mugs = \<lparr>sd_products = [\<lparr>item_productId = ''p1'', item_quantity = 3\<rparr>,
                                    \<lparr>item_productId = ''p2'', item_quantity = 2\<rparr>],
                    sd_discount = None, sd_amountPaid = 21, sd_paymentChannel = CASH,
                    sd_status = None\<rparr>"

text \<open>The same three teas, with the status \<^verbatim>\<open>returned\<close> in the request.\<close>

definition returned_teas :: SaleData where
  "returned_teas = three_teas\<lparr>sd_status := Some RETURNED\<rparr>"

text \<open>The shop after three teas were sold and the sale was returned.\<close>

definition returned_sale :: Sales where
  "returned_sale = \<lparr>sales_id = ''s1'', totalAmount = 13, discount = Some 2, status = RETURNED,
                    remainingToPay = Some 0, amountPaid = 13, paymentChannel = CASH,
                    salesPersonId = Some ''u1'', sales_createdAt = 0\<rparr>"

definition returned_shop :: store where
  "returned_shop =
     shop\<lparr>salesRepository := [returned_sale],
          salesProductRepository :=
            [\<lparr>salesId = ''s1'', productId = ''p1'', productName = ''tea'', sp_quantity = 3,
              priceAtSale = 5\<rparr>]\<rparr>"

text \<open>
  Scenario 3: the tea is counted at 8 while the table says 10. \<open>counted_shop\<close> is the shop
  after the count was recorded, \<open>reconciled_shop\<close> a shop that holds the count as a
  reconciled record, with the tea at 8.
\<close>

definition pending_inventory :: Inventory where
  "pending_inventory =
     \<lparr>inventory_id = ''i1'', inventory_outletId = ''o1'',
      inventory_products = [\<lparr>ip_productId = ''p1'', ip_name = ''tea'', counted = 8,
                              amountInDb = 10, reconciled = False\<rparr>],
      inventory_status = Inventory_PENDING, actionerId = Some ''u1'', inventory_createdAt = 0\<rparr>"

definition counted_shop :: store where
  "counted_shop = shop\<lparr>inventoryRepository := [pending_inventory]\<rparr>"

definition reconciled_inventory :: Inventory where
  "reconciled_inventory =
     \<lparr>inventory_id = ''i1'', inventory_outletId = ''o1'',
      inventory_products = [\<lparr>ip_productId = ''p1'', ip_name = ''tea'', counted = 8,
                              amountInDb = 10, reconciled = True\<rparr>],
      inventory_status = Inventory_RECONCILED, actionerId = Some ''u1'', inventory_createdAt = 0\<rparr>"

definition reconciled_shop :: store where
  "reconciled_shop =
     shop\<lparr>productRepository := [''p1'' \<mapsto> tea\<lparr>quantity := 8\<rparr>, ''p2'' \<mapsto> mug],
          inventoryRepository := [reconciled_inventory]\<rparr>"

text \<open>
  A second outlet: \<open>chain\<close> has a sales representative in each outlet, a store executive
  in the first, one sale by each representative and one inventory count in each outlet.
\<close>

definition exec :: User where
  "exec = \<lparr>email = ''exec@shop'', userType = STORE_EXECUTIVE,
           user_businessId = Some ''b1'', user_outletId = Some ''o1''\<rparr>"

definition sale_a :: Sales where
  "sale_a = \<lparr>sales_id = ''s1'', totalAmount = 13, discount = Some 2, status = COMPLETED,
             remainingToPay = Some 0, amountPaid = 13, paymentChannel = CASH,
             salesPersonId = Some ''u1'', sales_createdAt = 1\<rparr>"

definition sale_b :: Sales where
  "sale_b = \<lparr>sales_id = ''s2'', totalAmount = 3, discount = None, status = COMPLETED,
             remainingToPay = Some 0, amountPaid = 3, paymentChannel = CARD,
             salesPersonId = Some ''u2'', sales_createdAt = 2\<rparr>"

definition chain :: store where
  "chain =
     shop\<lparr>userRepository := [''u1'' \<mapsto> rep, ''u2'' \<mapsto> rep\<lparr>user_outletId := Some ''o2''\<rparr>,
                              ''u3'' \<mapsto> exec],
          outletRepository := [''o1'' \<mapsto> \<lparr>outlet_name = ''main'', outlet_businessId = ''b1''\<rparr>,
                                ''o2'' \<mapsto> \<lparr>outlet_name = ''branch'', outlet_businessId = ''b1''\<rparr>],
          salesRepository := [sale_a, sale_b],
          inventoryRepository :=
            [pending_inventory,
             pending_inventory\<lparr>inventory_id := ''i2'', inventory_outletId := ''o2''\<rparr>]\<rparr>"

definition rep_requester :: Requester where
  "rep_requester = \<lparr>req_id = ''u1'', req_userType = SALES_REP,
                    req_businessId = Some ''b1'', req_outletId = Some ''o1''\<rparr>"

definition exec_requester :: Requester where
  "exec_requester = \<lparr>req_id = ''u3'', req_userType = STORE_EXECUTIVE,
                     req_businessId = Some ''b1'', req_outletId = Some ''o1''\<rparr>"

definition no_sales_filters :: SalesFilters where
  "no_sales_filters = \<lparr>sf_outletId = None, sf_businessId = None, sf_salesPersonId = None,
                       sf_status = None, sf_paymentChannel = None, sf_search = None,
                       sf_createdAt_start = None, sf_createdAt_end = None\<rparr>"

definition no_inventory_filters :: InventoryFilters where
  "no_inventory_filters = \<lparr>if_outletId = None, if_businessId = None, if_status = None,
                           if_actionerId = None, if_search = None,
                           if_createdAt_start = None, if_createdAt_end = None\<rparr>"

definition first_page :: PaginationOptions where
  "first_page = \<lparr>page = None, limit = None, sortBy = None, sortOrder = None\<rparr>"

definition sales_by_date :: "string \<Rightarrow> Sales \<Rightarrow> Sales \<Rightarrow> bool" where
  "sales_by_date column a b = (sales_createdAt a \<le> sales_createdAt b)"

definition inventories_by_date :: "string \<Rightarrow> Inventory \<Rightarrow> Inventory \<Rightarrow> bool" where
  "inventories_by_date column a b = (inventory_createdAt a \<le> inventory_createdAt b)"

definition match_all :: "string \<Rightarrow> 'a \<Rightarrow> bool" where
  "match_all v row = True"

text \<open>
  A day in the shop: a sale, its return, a sale that fails on its second line, a count
  and the request to reconcile it.
\<close>

definition a_day :: "operation list" where
  "a_day = [RecordSale ''s1'' 0 ''u1'' three_teas,
            UpdateSaleStatus ''s1'' RETURNED,
            RecordSale ''s2'' 1 ''u1'' teas_and_mugs,
            RecordInventory ''i1'' 2 ''o1'' ''u1'' [\<lparr>ci_productId = ''p1'', ci_counted = 6\<rparr>],
            ReconcileInventory ''i1'' [\<lparr>ri_productId = ''p1'', reconciledQuantity = 6\<rparr>]]"

text \<open>A shop that sells sweets at 0.10, and a sale of three of them.\<close>

definition sweet :: Product where
  "sweet = \<lparr>name = ''sweet'', price = 1 / 10, quantity = 10,
            product_outletId = ''o1'', product_businessId = ''b1''\<rparr>"

definition sweet_shop :: store where
  "sweet_shop = shop\<lparr>productRepository := [''p3'' \<mapsto> sweet]\<rparr>"

definition three_sweets :: SaleData where
  "three_sweets = \<lparr>sd_products = [\<lparr>item_productId = ''p3'', item_quantity = 3\<rparr>],
                   sd_discount = None, sd_amountPaid = 0, sd_paymentChannel = CASH,
                   sd_status = None\<rparr>"

text \<open>
  A shop with three teas whose sales table holds a completed sale with a line of
  quantity \<open>-5\<close>.
\<close>

definition odd_shop :: store where
  "odd_shop =
     shop\<lparr>productRepository := [''p1'' \<mapsto> tea\<lparr>quantity := 3\<rparr>, ''p2'' \<mapsto> mug],
          salesRepository := [returned_sale\<lparr>status := COMPLETED\<rparr>],
          salesProductRepository :=
            [\<lparr>salesId = ''s1'', productId = ''p1'', productName = ''tea'', sp_quantity = - 5,
              priceAtSale = 5\<rparr>]\<rparr>"

section \<open>Properties of the sales service\<close>

lemmas shop_defs = shop_def tea_def mug_def rep_def three_teas_def teas_and_mugs_def
  returned_teas_def returned_sale_def returned_shop_def pending_inventory_def counted_shop_def
  reconciled_inventory_def reconciled_shop_def exec_def sale_a_def sale_b_def chain_def
  rep_requester_def exec_requester_def no_sales_filters_def no_inventory_filters_def
  first_page_def sales_by_date_def inventories_by_date_def sweet_def sweet_shop_def
  three_sweets_def odd_shop_def

subsection \<open>The loop of recordSale\<close>

lemma sold_Nil [simp]: "sold [] pid = 0"
  by (simp add: sold_def)

lemma sold_Cons [simp]:
  "sold (i # items) pid = (if item_productId i = pid then item_quantity i else 0) + sold items pid"
  by (simp add: sold_def)

lemma sold_append [simp]: "sold (xs @ ys) pid = sold xs pid + sold ys pid"
  by (simp add: sold_def)

lemma findProductInOutlet_Some:
  "findProductInOutlet s pid oid = Some p \<Longrightarrow> productRepository s pid = Some p"
  by (auto simp: findProductInOutlet_def split: option.splits if_splits)

lemma saveProduct_fields [simp]:
  "productRepository (saveProduct s pid p) = (productRepository s)(pid \<mapsto> p)"
  "userRepository (saveProduct s pid p) = userRepository s"
  "outletRepository (saveProduct s pid p) = outletRepository s"
  "salesRepository (saveProduct s pid p) = salesRepository s"
  "salesProductRepository (saveProduct s pid p) = salesProductRepository s"
  "inventoryRepository (saveProduct s pid p) = inventoryRepository s"
  "unawaitedUpdates (saveProduct s pid p) = unawaitedUpdates s"
  by (simp_all add: saveProduct_def)

text \<open>Some sums the examples need, worked out in double arithmetic.\<close>

lemma three_teas_amount: "js_add 0 (js_mul (double 5) 3) = 15"
  by code_simp





text \<open>The loop writes to the product table only, whether it ends or throws.\<close>

lemma recordSale_loop_same_rows:
  "recordSale_loop oid items tot sps s = (r, s') \<Longrightarrow> same_rows s s'"
proof (induction items arbitrary: tot sps s)
  case Nil
  then show ?case by (simp add: same_rows_def)
next
  case (Cons item items)
  show ?case
  proof (cases "findProductInOutlet s (item_productId item) oid")
    case None
    with Cons.prems show ?thesis by (simp add: same_rows_def)
  next
    case (Some product)
    show ?thesis
    proof (cases "quantity product < item_quantity item")
      case True
      with Some Cons.prems show ?thesis by (simp add: same_rows_def)
    next
      case False
      with Some Cons.prems Cons.IH show ?thesis
        by (fastforce simp: same_rows_def)
    qed
  qed
qed

text \<open>Once the lines \<open>pre\<close> have passed, the loop goes on with the lines after them.\<close>

lemma recordSale_loop_append:
  "recordSale_loop oid pre tot sps s = (Inr (tot', sps'), s1) \<Longrightarrow>
   recordSale_loop oid (pre @ rest) tot sps s = recordSale_loop oid rest tot' sps' s1"
proof (induction pre arbitrary: tot sps s)
  case Nil
  then show ?case by simp
next
  case (Cons item pre)
  then show ?case
    by (auto split: option.splits if_splits)
qed

text \<open>
  A loop that ends has taken every line off the stock, and has built one sale line for
  each request line, priced from the product table it started with.
\<close>

lemma recordSale_loop_stock:
  "recordSale_loop oid items tot sps s = (Inr (tot', sps'), s') \<Longrightarrow>
   productRepository s' = lessStock s items"
proof (induction items arbitrary: tot sps s)
  case Nil
  then show ?case by (auto simp: lessStock_def fun_eq_iff option.map_ident map_option_case split: option.splits)
next
  case (Cons item items)
  from Cons.prems obtain p where
    f: "findProductInOutlet s (item_productId item) oid = Some p" and
    q: "\<not> quantity p < item_quantity item" and
    rest: "recordSale_loop oid items
             (js_add tot (js_mul (double (price p)) (of_int (item_quantity item))))
             (sps @ [\<lparr>salesId = [], productId = item_productId item, productName = name p,
                      sp_quantity = item_quantity item, priceAtSale = price p\<rparr>])
             (saveProduct s (item_productId item) (p\<lparr>quantity := quantity p - item_quantity item\<rparr>))
           = (Inr (tot', sps'), s')"
    by (auto split: option.splits if_splits)
  from f have p: "productRepository s (item_productId item) = Some p"
    by (rule findProductInOutlet_Some)
  from Cons.IH [OF rest] p show ?case
    by (auto simp: lessStock_def fun_eq_iff)
qed

lemma recordSale_loop_lines:
  "recordSale_loop oid items tot sps s = (Inr (tot', sps'), s') \<Longrightarrow>
   \<exists>new. sps' = sps @ new \<and>
     tot' = foldl (\<lambda>acc sp. js_add acc (js_mul (double (priceAtSale sp)) (of_int (sp_quantity sp))))
              tot new \<and>
     map productId new = map item_productId items \<and>
     map sp_quantity new = map item_quantity items \<and>
     (\<forall>l\<in>set new. salesId l = [] \<and>
        (\<exists>p. productRepository s (productId l) = Some p \<and>
             priceAtSale l = price p \<and> productName l = name p))"
proof (induction items arbitrary: tot sps s)
  case Nil
  then show ?case by simp
next
  case (Cons item items)
  from Cons.prems obtain p where
    f: "findProductInOutlet s (item_productId item) oid = Some p" and
    rest: "recordSale_loop oid items
             (js_add tot (js_mul (double (price p)) (of_int (item_quantity item))))
             (sps @ [\<lparr>salesId = [], productId = item_productId item, productName = name p,
                      sp_quantity = item_quantity item, priceAtSale = price p\<rparr>])
             (saveProduct s (item_productId item) (p\<lparr>quantity := quantity p - item_quantity item\<rparr>))
           = (Inr (tot', sps'), s')"
    by (auto split: option.splits if_splits)
  from f have p: "productRepository s (item_productId item) = Some p"
    by (rule findProductInOutlet_Some)
  let ?l = "\<lparr>salesId = [], productId = item_productId item, productName = name p,
             sp_quantity = item_quantity item, priceAtSale = price p\<rparr>"
  from Cons.IH [OF rest] obtain new where
    n1: "sps' = (sps @ [?l]) @ new" and
    n2: "tot' = foldl (\<lambda>acc sp. js_add acc (js_mul (double (priceAtSale sp)) (of_int (sp_quantity sp))))
                  (js_add tot (js_mul (double (price p)) (of_int (item_quantity item)))) new" and
    n3: "map productId new = map item_productId items" and
    n4: "map sp_quantity new = map item_quantity items" and
    n5: "\<forall>l\<in>set new. salesId l = [] \<and>
           (\<exists>p'. productRepository
                    (saveProduct s (item_productId item) (p\<lparr>quantity := quantity p - item_quantity item\<rparr>))
                    (productId l) = Some p' \<and>
                 priceAtSale l = price p' \<and> productName l = name p')"
    by blast
  have n5': "\<forall>l\<in>set (?l # new). salesId l = [] \<and>
           (\<exists>p'. productRepository s (productId l) = Some p' \<and>
                 priceAtSale l = price p' \<and> productName l = name p')"
  proof
    fix l assume "l \<in> set (?l # new)"
    then consider "l = ?l" | "l \<in> set new" by auto
    then show "salesId l = [] \<and>
           (\<exists>p'. productRepository s (productId l) = Some p' \<and>
                 priceAtSale l = price p' \<and> productName l = name p')"
    proof cases
      case 1
      with p show ?thesis by simp
    next
      case 2
      with n5 obtain p' where
        e: "salesId l = []" and
        g: "productRepository
              (saveProduct s (item_productId item) (p\<lparr>quantity := quantity p - item_quantity item\<rparr>))
              (productId l) = Some p'" and
        h: "priceAtSale l = price p'" "productName l = name p'"
        by blast
      show ?thesis
      proof (cases "productId l = item_productId item")
        case True
        with g have "p' = p\<lparr>quantity := quantity p - item_quantity item\<rparr>" by simp
        with e h p True show ?thesis by simp
      next
        case False
        with g have "productRepository s (productId l) = Some p'" by simp
        with e h show ?thesis by simp
      qed
    qed
  qed
  show ?case
  proof (intro exI [of _ "?l # new"] conjI)
    show "sps' = sps @ ?l # new" using n1 by simp
    show "tot' = foldl (\<lambda>acc sp. js_add acc (js_mul (double (priceAtSale sp)) (of_int (sp_quantity sp))))
                  tot (?l # new)"
      using n2 by simp
    show "map productId (?l # new) = map item_productId (item # items)" using n3 by simp
    show "map sp_quantity (?l # new) = map item_quantity (item # items)" using n4 by simp
    show "\<forall>l\<in>set (?l # new). salesId l = [] \<and>
           (\<exists>p'. productRepository s (productId l) = Some p' \<and>
                 priceAtSale l = price p' \<and> productName l = name p')"
      by (rule n5')
  qed
qed

text \<open>What a successful \<open>recordSale\<close> returns and stores.\<close>

lemma recordSale_Inr:
  assumes "recordSale s newId now spid saleData = (Inr (sale, lines), s')"
  shows "\<exists>u tot sps s1.
           userRepository s spid = Some u \<and>
           recordSale_loop (user_outletId u) (sd_products saleData) 0 [] s = (Inr (tot, sps), s1) \<and>
           sale = createSale newId now spid saleData (applyDiscount (sd_discount saleData) tot) \<and>
           lines = cascadeLines sale sps \<and>
           s' = insertSale s1 sale sps"
  using assms
  by (auto simp: recordSale_def Let_def split: option.splits prod.splits sum.splits)

subsection \<open>Re-stocking\<close>

lemma returned_Nil [simp]: "returned [] pid = 0"
  by (simp add: returned_def)

lemma returned_Cons [simp]:
  "returned (sp # sps) pid = (if productId sp = pid then sp_quantity sp else 0) + returned sps pid"
  by (simp add: returned_def)

lemma returned_append [simp]: "returned (xs @ ys) pid = returned xs pid + returned ys pid"
  by (simp add: returned_def)

lemma restock_same_rows: "same_rows s (restock sps s)"
proof (induction sps arbitrary: s)
  case Nil
  show ?case by (simp add: same_rows_def)
next
  case (Cons sp sps)
  show ?case
  proof (cases "productRepository s (productId sp)")
    case None
    with Cons.IH [of s] show ?thesis by simp
  next
    case (Some product)
    with Cons.IH [of "saveProduct s (productId sp)
                        (product\<lparr>quantity := quantity product + sp_quantity sp\<rparr>)"]
    show ?thesis by (simp add: same_rows_def)
  qed
qed

lemma restock_stock:
  "productRepository (restock sps s) pid =
     map_option (\<lambda>p. p\<lparr>quantity := quantity p + returned sps pid\<rparr>) (productRepository s pid)"
proof (induction sps arbitrary: s)
  case Nil
  show ?case by (cases "productRepository s pid") simp_all
next
  case (Cons sp sps)
  show ?case
  proof (cases "productRepository s (productId sp)")
    case None
    with Cons.IH [of s] show ?thesis by auto
  next
    case (Some product)
    with Cons.IH [of "saveProduct s (productId sp)
                        (product\<lparr>quantity := quantity product + sp_quantity sp\<rparr>)"]
    show ?thesis by (auto simp: add.assoc)
  qed
qed

subsection \<open>A failed stock check (claim C1)\<close>

text \<open>
  Claim C1 says that a multi-line \<open>recordSale\<close> in which some line fails the stock check
  fails with InsufficientStock, persists no Sales or SalesLine row and leaves every
  product's quantity unchanged, the decrements of the earlier lines being rolled back.
  The service saves each decremented product inside the loop and opens no transaction, so
  the last part does not hold. What holds is this: if the lines \<open>pre\<close> before the line
  \<open>item\<close> pass their checks and \<open>item\<close> asks for more than is left at that moment, then
  \<open>recordSale\<close> fails with the 400 error ``Insufficient stock'' for that product, the
  tables of sales and sale lines are as before, and the product table is the old one with
  the lines \<open>pre\<close> taken off: the earlier decrements stay.
\<close>

theorem recordSale_insufficient_stock_keeps_earlier_decrements:
  assumes "userRepository s spid = Some u"
    and "sd_products saleData = pre @ item # post"
    and "recordSale_loop (user_outletId u) pre 0 [] s = (Inr r, s1)"
    and "findProductInOutlet s1 (item_productId item) (user_outletId u) = Some p"
    and "quantity p < item_quantity item"
  shows "recordSale s newId now spid saleData =
           (Inl (ApiError (Insufficient_stock (name p) (quantity p)) 400), s1) \<and>
         salesRepository s1 = salesRepository s \<and>
         salesProductRepository s1 = salesProductRepository s \<and>
         productRepository s1 = lessStock s pre"
proof -
  obtain tot sps where r: "r = (tot, sps)" by (cases r)
  from assms(3) r have
    "recordSale_loop (user_outletId u) (pre @ item # post) 0 [] s =
     recordSale_loop (user_outletId u) (item # post) tot sps s1"
    by (simp add: recordSale_loop_append)
  with assms(4,5) have
    "recordSale_loop (user_outletId u) (sd_products saleData) 0 [] s =
     (Inl (ApiError (Insufficient_stock (name p) (quantity p)) 400), s1)"
    by (simp add: assms(2))
  with assms(1) have
    "recordSale s newId now spid saleData =
       (Inl (ApiError (Insufficient_stock (name p) (quantity p)) 400), s1)"
    by (simp add: recordSale_def)
  moreover from assms(3) have "same_rows s s1"
    by (rule recordSale_loop_same_rows)
  moreover from assms(3) r have "productRepository s1 = lessStock s pre"
    by (simp add: recordSale_loop_stock)
  ultimately show ?thesis by (simp add: same_rows_def)
qed

text \<open>
  The theorem at work: three teas and two mugs are asked for, and there is one mug. The
  sale fails on the second line and the shop is left with seven teas.
\<close>

theorem recordSale_insufficient_stock_witness:
  "recordSale shop ''s1'' 0 ''u1'' teas_and_mugs =
     (Inl (ApiError (Insufficient_stock ''mug'' 1) 400),
      saveProduct shop ''p1'' (tea\<lparr>quantity := 7\<rparr>)) \<and>
   salesRepository (saveProduct shop ''p1'' (tea\<lparr>quantity := 7\<rparr>)) = [] \<and>
   salesProductRepository (saveProduct shop ''p1'' (tea\<lparr>quantity := 7\<rparr>)) = [] \<and>
   productRepository (saveProduct shop ''p1'' (tea\<lparr>quantity := 7\<rparr>)) =
     lessStock shop [\<lparr>item_productId = ''p1'', item_quantity = 3\<rparr>]"
proof -
  let ?s1 = "saveProduct shop ''p1'' (tea\<lparr>quantity := 7\<rparr>)"
  let ?line = "\<lparr>salesId = [], productId = ''p1'', productName = ''tea'', sp_quantity = 3,
                priceAtSale = 5\<rparr>"
  have h1: "userRepository shop ''u1'' = Some rep"
    by (simp add: shop_def)
  have h2: "sd_products teas_and_mugs =
              [\<lparr>item_productId = ''p1'', item_quantity = 3\<rparr>] @
              \<lparr>item_productId = ''p2'', item_quantity = 2\<rparr> # []"
    by (simp add: teas_and_mugs_def)
  have h3: "recordSale_loop (user_outletId rep) [\<lparr>item_productId = ''p1'', item_quantity = 3\<rparr>] 0 [] shop
              = (Inr (15, [?line]), ?s1)"
    by (simp add: findProductInOutlet_def shop_defs three_teas_amount)
  have h4: "findProductInOutlet ?s1 (item_productId \<lparr>item_productId = ''p2'', item_quantity = 2\<rparr>)
              (user_outletId rep) = Some mug"
    by (simp add: findProductInOutlet_def shop_defs)
  have h5: "quantity mug < item_quantity \<lparr>item_productId = ''p2'', item_quantity = 2\<rparr>"
    by (simp add: mug_def)
  from recordSale_insufficient_stock_keeps_earlier_decrements [OF h1 h2 h3 h4 h5, of "''s1''" 0]
  show ?thesis by (simp add: shop_def mug_def)
qed

text \<open>
  Against claim C1 as stated: the same sale fails with ``Insufficient stock'', and the
  quantity of tea, which was 10 before the call, is 7 after it.
\<close>

theorem recordSale_partial_decrement_counterexample:
  "fst (recordSale shop ''s1'' 0 ''u1'' teas_and_mugs) =
     Inl (ApiError (Insufficient_stock ''mug'' 1) 400) \<and>
   map_option quantity (productRepository shop ''p1'') = Some 10 \<and>
   map_option quantity (productRepository (snd (recordSale shop ''s1'' 0 ''u1'' teas_and_mugs)) ''p1'')
     = Some 7"
  by (simp add: recordSale_def findProductInOutlet_def saveProduct_def shop_defs)

subsection \<open>Totals (claim C3)\<close>





subsection \<open>The status of a new sale (claim C7)\<close>

text \<open>
  Claim C7 says that every Sales record persisted by \<open>recordSale\<close> has the status
  COMPLETED at creation, for every accepted input. The request may carry a status of its
  own, and the entity is built from the request. What holds is this: the persisted record
  has the status of the request when there is one, and COMPLETED when there is none.
\<close>

theorem recordSale_status:
  assumes "recordSale s newId now spid saleData = (Inr (sale, lines), s')"
  shows "status sale = (case sd_status saleData of None \<Rightarrow> COMPLETED | Some st \<Rightarrow> st) \<and>
         sale \<in> set (salesRepository s')"
proof -
  from recordSale_Inr [OF assms] obtain u tot sps s1 where
    usr: "userRepository s spid = Some u" and
    sale: "sale = createSale newId now spid saleData (applyDiscount (sd_discount saleData) tot)" and
    s': "s' = insertSale s1 sale sps"
    by blast
  show ?thesis
    by (simp add: sale s' createSale_def insertSale_def)
qed

text \<open>A request with no status gives a COMPLETED sale.\<close>

theorem recordSale_status_witness:
  "status (fst (projr (fst (recordSale shop ''s1'' 0 ''u1'' three_teas)))) = COMPLETED \<and>
   fst (projr (fst (recordSale shop ''s1'' 0 ''u1'' three_teas)))
     \<in> set (salesRepository (snd (recordSale shop ''s1'' 0 ''u1'' three_teas)))"
proof -
  have run: "recordSale shop ''s1'' 0 ''u1'' three_teas =
     (Inr (fst (projr (fst (recordSale shop ''s1'' 0 ''u1'' three_teas))),
           snd (projr (fst (recordSale shop ''s1'' 0 ''u1'' three_teas)))),
      snd (recordSale shop ''s1'' 0 ''u1'' three_teas))"
    by (simp add: recordSale_def findProductInOutlet_def Let_def shop_defs)
  from recordSale_status [OF run] show ?thesis
    by (simp add: three_teas_def)
qed

text \<open>
  Against claim C7 as stated: the request \<open>returned_teas\<close> is accepted and the sale it
  creates has the status RETURNED.
\<close>

theorem recordSale_status_counterexample:
  "\<not> isl (fst (recordSale shop ''s1'' 0 ''u1'' returned_teas)) \<and>
   status (fst (projr (fst (recordSale shop ''s1'' 0 ''u1'' returned_teas)))) = RETURNED \<and>
   RETURNED \<noteq> COMPLETED"
  by (simp add: recordSale_def findProductInOutlet_def createSale_def Let_def shop_defs)

subsection \<open>Returning a returned sale (claim C4)\<close>

text \<open>
  Claim C4 says that \<open>updateSaleStatus\<close> to RETURNED on a sale that is already RETURNED
  fails, and does not add to any product's quantity again. The second half holds, the
  first does not: the call meets the guard for an unchanged status and returns the sale as
  it is. What holds is this: on a sale whose status is RETURNED the call succeeds with
  that sale and leaves the whole store, the product quantities included, as it was.
\<close>

theorem updateSaleStatus_already_returned:
  assumes "findSale s saleId = Some sale" and "status sale = RETURNED"
  shows "updateSaleStatus s saleId RETURNED = (Inr sale, s)"
  using assms by (simp add: updateSaleStatus_def)

text \<open>The returned sale of \<open>returned_shop\<close> is returned once more.\<close>

theorem updateSaleStatus_already_returned_witness:
  "findSale returned_shop ''s1'' = Some returned_sale \<and> status returned_sale = RETURNED \<and>
   updateSaleStatus returned_shop ''s1'' RETURNED = (Inr returned_sale, returned_shop)"
proof -
  have h1: "findSale returned_shop ''s1'' = Some returned_sale"
    by (simp add: findSale_def returned_shop_def returned_sale_def)
  have h2: "status returned_sale = RETURNED"
    by (simp add: returned_sale_def)
  from updateSaleStatus_already_returned [OF h1 h2] h1 h2 show ?thesis by simp
qed

text \<open>
  Against claim C4 as stated: the sale of \<open>returned_shop\<close> has the status RETURNED, and
  the further call does not fail.
\<close>

theorem updateSaleStatus_already_returned_counterexample:
  "status returned_sale = RETURNED \<and>
   findSale returned_shop ''s1'' = Some returned_sale \<and>
   \<not> isl (fst (updateSaleStatus returned_shop ''s1'' RETURNED))"
  by (simp add: updateSaleStatus_def findSale_def returned_shop_def returned_sale_def)

subsection \<open>A sale and its return (claim C5)\<close>

lemma findSale_fresh:
  assumes "\<forall>r\<in>set rows. sales_id r \<noteq> sales_id sale"
  shows "find (\<lambda>r. sales_id r = sales_id sale) (rows @ [sale]) = Some sale"
  using assms by (induction rows) auto

lemma filter_fresh:
  assumes "\<forall>l\<in>set old. salesId l \<noteq> i" and "\<forall>l\<in>set new. salesId l = i"
  shows "filter (\<lambda>l. salesId l = i) (old @ new) = new"
proof -
  from assms(1) have "filter (\<lambda>l. salesId l = i) old = []"
    by (induction old) auto
  moreover from assms(2) have "filter (\<lambda>l. salesId l = i) new = new"
    by (induction new) auto
  ultimately show ?thesis by simp
qed

lemma returned_eq_sold:
  assumes "map productId lines = map item_productId items"
    and "map sp_quantity lines = map item_quantity items"
  shows "returned lines pid = sold items pid"
  using assms
proof (induction lines arbitrary: items)
  case Nil
  then show ?case by simp
next
  case (Cons l lines)
  then obtain i rest where items: "items = i # rest" by (cases items) auto
  with Cons.prems have "map productId lines = map item_productId rest"
    and "map sp_quantity lines = map item_quantity rest"
    and "productId l = item_productId i" and "sp_quantity l = item_quantity i"
    by auto
  with Cons.IH [of rest] show ?case by (simp add: items)
qed

text \<open>
  Claim C5 says that a successful \<open>recordSale\<close> followed by a successful
  \<open>updateSaleStatus\<close> to RETURNED brings every product's quantity back to its value
  before the sale. It fails for a sale recorded with the status RETURNED in the request:
  the return then changes nothing. What holds is this: if the request did not ask for
  the status RETURNED, and the generated id \<open>newId\<close> is new to the tables of sales and
  sale lines, then the return that follows the sale succeeds, sets the status to RETURNED
  and leaves the product table exactly as it was before the sale.
\<close>

theorem sale_then_return_restores_stock:
  assumes sold_ok: "recordSale s newId now spid saleData = (Inr (sale, lines), s1)"
    and st: "sd_status saleData \<noteq> Some RETURNED"
    and fresh_sale: "\<forall>r\<in>set (salesRepository s). sales_id r \<noteq> newId"
    and fresh_lines: "\<forall>l\<in>set (salesProductRepository s). salesId l \<noteq> newId"
  shows "fst (updateSaleStatus s1 newId RETURNED) = Inr (sale\<lparr>status := RETURNED\<rparr>) \<and>
         productRepository (snd (updateSaleStatus s1 newId RETURNED)) = productRepository s"
proof -
  from recordSale_Inr [OF sold_ok] obtain u tot sps s0 where
    usr: "userRepository s spid = Some u" and
    loop: "recordSale_loop (user_outletId u) (sd_products saleData) 0 [] s = (Inr (tot, sps), s0)" and
    sale: "sale = createSale newId now spid saleData (applyDiscount (sd_discount saleData) tot)" and
    lines: "lines = cascadeLines sale sps" and
    s1: "s1 = insertSale s0 sale sps"
    by blast
  have id: "sales_id sale = newId" by (simp add: sale createSale_def)
  from st have not_returned: "status sale \<noteq> RETURNED"
    by (cases "sd_status saleData") (simp_all add: sale createSale_def)
  from recordSale_loop_same_rows [OF loop] have same: "same_rows s s0" .
  from recordSale_loop_stock [OF loop] have stock0: "productRepository s0 = lessStock s (sd_products saleData)" .
  from recordSale_loop_lines [OF loop] have
    ids: "map productId sps = map item_productId (sd_products saleData)" and
    qs: "map sp_quantity sps = map item_quantity (sd_products saleData)"
    by auto
  have found: "findSale s1 newId = Some sale"
    using findSale_fresh [of "salesRepository s" sale] fresh_sale same
    by (simp add: findSale_def s1 insertSale_def same_rows_def id)
  have all_new: "\<forall>l\<in>set lines. salesId l = newId"
    by (simp add: lines cascadeLines_def id)
  have stored: "findSalesProducts s1 newId = lines"
    using filter_fresh [OF fresh_lines all_new] same
    by (simp add: findSalesProducts_def s1 insertSale_def same_rows_def lines)
  have units: "returned lines pid = sold (sd_products saleData) pid" for pid
    using ids qs by (intro returned_eq_sold) (simp_all add: lines cascadeLines_def comp_def)
  have prod1: "productRepository s1 = productRepository s0"
    by (simp add: s1 insertSale_def)
  have upd: "updateSaleStatus s1 newId RETURNED =
               (Inr (sale\<lparr>status := RETURNED\<rparr>), saveSale (restock lines s1) (sale\<lparr>status := RETURNED\<rparr>))"
    using found not_returned stored by (simp add: updateSaleStatus_def id Let_def)
  have "productRepository (restock lines s1) pid = productRepository s pid" for pid
  proof (cases "productRepository s pid")
    case None
    then show ?thesis by (simp add: restock_stock prod1 stock0 lessStock_def)
  next
    case (Some p)
    then show ?thesis by (simp add: restock_stock prod1 stock0 lessStock_def units)
  qed
  then have "productRepository (saveSale (restock lines s1) (sale\<lparr>status := RETURNED\<rparr>)) = productRepository s"
    by (simp add: saveSale_def fun_eq_iff)
  with upd show ?thesis by simp
qed

text \<open>Scenarios 1 and 2: three teas are sold, seven are left; the return brings back ten.\<close>

theorem sale_then_return_witness:
  "sd_status three_teas \<noteq> Some RETURNED \<and>
   salesRepository shop = [] \<and> salesProductRepository shop = [] \<and>
   \<not> isl (fst (recordSale shop ''s1'' 0 ''u1'' three_teas)) \<and>
   productRepository (snd (recordSale shop ''s1'' 0 ''u1'' three_teas)) ''p1''
     = Some (tea\<lparr>quantity := 7\<rparr>) \<and>
   fst (updateSaleStatus (snd (recordSale shop ''s1'' 0 ''u1'' three_teas)) ''s1'' RETURNED)
     = Inr ((fst (projr (fst (recordSale shop ''s1'' 0 ''u1'' three_teas))))\<lparr>status := RETURNED\<rparr>) \<and>
   productRepository
     (snd (updateSaleStatus (snd (recordSale shop ''s1'' 0 ''u1'' three_teas)) ''s1'' RETURNED))
     = productRepository shop"
proof -
  have run: "recordSale shop ''s1'' 0 ''u1'' three_teas =
     (Inr (fst (projr (fst (recordSale shop ''s1'' 0 ''u1'' three_teas))),
           snd (projr (fst (recordSale shop ''s1'' 0 ''u1'' three_teas)))),
      snd (recordSale shop ''s1'' 0 ''u1'' three_teas))"
    by (simp add: recordSale_def findProductInOutlet_def Let_def shop_defs)
  have h2: "sd_status three_teas \<noteq> Some RETURNED" by (simp add: three_teas_def)
  have h3: "\<forall>r\<in>set (salesRepository shop). sales_id r \<noteq> ''s1''" by (simp add: shop_def)
  have h4: "\<forall>l\<in>set (salesProductRepository shop). salesId l \<noteq> ''s1''" by (simp add: shop_def)
  have ok: "\<not> isl (fst (recordSale shop ''s1'' 0 ''u1'' three_teas))"
    by (simp add: recordSale_def findProductInOutlet_def Let_def shop_defs)
  have mid: "productRepository (snd (recordSale shop ''s1'' 0 ''u1'' three_teas)) ''p1''
               = Some (tea\<lparr>quantity := 7\<rparr>)"
    by (simp add: recordSale_def findProductInOutlet_def insertSale_def Let_def shop_defs)
  from sale_then_return_restores_stock [OF run h2 h3 h4] h2 ok mid
  show ?thesis by (simp add: shop_def)
qed

text \<open>
  Against claim C5 as stated: \<open>returned_teas\<close> is recorded, the return succeeds, and the
  quantity of tea, 10 before the sale, is 7 after the return.
\<close>

theorem sale_then_return_counterexample:
  "\<not> isl (fst (recordSale shop ''s1'' 0 ''u1'' returned_teas)) \<and>
   \<not> isl (fst (updateSaleStatus (snd (recordSale shop ''s1'' 0 ''u1'' returned_teas)) ''s1'' RETURNED)) \<and>
   map_option quantity (productRepository shop ''p1'') = Some 10 \<and>
   map_option quantity
     (productRepository
        (snd (updateSaleStatus (snd (recordSale shop ''s1'' 0 ''u1'' returned_teas)) ''s1'' RETURNED))
        ''p1'') = Some 7"
  by (simp add: recordSale_def findProductInOutlet_def insertSale_def createSale_def
        cascadeLines_def updateSaleStatus_def findSale_def findSalesProducts_def saveSale_def
        Let_def shop_defs)

section \<open>Properties of the inventory service\<close>

subsection \<open>Recording a count (claim C8)\<close>

lemma recordInventory_loop_lines:
  "recordInventory_loop s oid items acc = Inr res \<Longrightarrow>
   \<exists>new. res = acc @ new \<and>
     list_all2 (\<lambda>item line.
        ip_productId line = ci_productId item \<and> counted line = ci_counted item \<and>
        \<not> reconciled line \<and>
        (\<exists>p. productRepository s (ci_productId item) = Some p \<and>
             amountInDb line = quantity p \<and> ip_name line = name p)) items new"
proof (induction items arbitrary: acc)
  case Nil
  then show ?case by simp
next
  case (Cons item items)
  from Cons.prems obtain p where
    f: "findProductInOutlet s (ci_productId item) (Some oid) = Some p" and
    rest: "recordInventory_loop s oid items
             (acc @ [\<lparr>ip_productId = ci_productId item, ip_name = name p,
                      counted = ci_counted item, amountInDb = quantity p,
                      reconciled = False\<rparr>]) = Inr res"
    by (auto split: option.splits)
  from f have p: "productRepository s (ci_productId item) = Some p"
    by (rule findProductInOutlet_Some)
  from Cons.IH [OF rest] p show ?case
    by (auto simp: list_all2_Cons1)
qed

text \<open>
  Claim C8: after a successful \<open>recordInventory\<close> the product table is the one before the
  call, the new Inventory row has the status PENDING, and its lines answer the submitted
  counts one by one: same product, the submitted count, \<open>reconciled\<close> false, and
  \<open>amountInDb\<close> the quantity the product has at that moment. The store changes only by
  the new row.
\<close>

theorem recordInventory_snapshot:
  assumes "recordInventory s newId now oid aid productsData = (Inr inventory, s')"
  shows "productRepository s' = productRepository s \<and>
         inventory_status inventory = Inventory_PENDING \<and>
         list_all2 (\<lambda>item line.
            ip_productId line = ci_productId item \<and> counted line = ci_counted item \<and>
            \<not> reconciled line \<and>
            (\<exists>p. productRepository s (ci_productId item) = Some p \<and> amountInDb line = quantity p))
           productsData (inventory_products inventory) \<and>
         s' = s\<lparr>inventoryRepository := inventoryRepository s @ [inventory]\<rparr>"
proof -
  from assms obtain res where
    loop: "recordInventory_loop s oid productsData [] = Inr res" and
    inv: "inventory = \<lparr>inventory_id = newId, inventory_outletId = oid,
                       inventory_products = res, inventory_status = Inventory_PENDING,
                       actionerId = Some aid, inventory_createdAt = now\<rparr>" and
    s': "s' = s\<lparr>inventoryRepository := inventoryRepository s @ [inventory]\<rparr>"
    by (auto simp: recordInventory_def Let_def split: option.splits sum.splits)
  from recordInventory_loop_lines [OF loop] have
    "list_all2 (\<lambda>item line.
        ip_productId line = ci_productId item \<and> counted line = ci_counted item \<and>
        \<not> reconciled line \<and>
        (\<exists>p. productRepository s (ci_productId item) = Some p \<and>
             amountInDb line = quantity p \<and> ip_name line = name p)) productsData res"
    by simp
  then have "list_all2 (\<lambda>item line.
        ip_productId line = ci_productId item \<and> counted line = ci_counted item \<and>
        \<not> reconciled line \<and>
        (\<exists>p. productRepository s (ci_productId item) = Some p \<and> amountInDb line = quantity p))
      productsData res"
    by (rule list_all2_mono) auto
  then show ?thesis
    using s' by (simp add: inv)
qed

text \<open>Scenario 3, first half: the tea is counted at 8 while 10 are on record.\<close>

theorem recordInventory_snapshot_witness:
  "recordInventory shop ''i1'' 0 ''o1'' ''u1'' [\<lparr>ci_productId = ''p1'', ci_counted = 8\<rparr>]
     = (Inr pending_inventory, counted_shop) \<and>
   productRepository counted_shop = productRepository shop \<and>
   inventory_status pending_inventory = Inventory_PENDING \<and>
   map amountInDb (inventory_products pending_inventory) = [quantity tea] \<and>
   map reconciled (inventory_products pending_inventory) = [False]"
proof -
  have run: "recordInventory shop ''i1'' 0 ''o1'' ''u1'' [\<lparr>ci_productId = ''p1'', ci_counted = 8\<rparr>]
     = (Inr pending_inventory, counted_shop)"
    by (simp add: recordInventory_def findProductInOutlet_def Let_def shop_defs)
  from recordInventory_snapshot [OF run] run show ?thesis
    by (simp add: pending_inventory_def tea_def)
qed

subsection \<open>The load of reconcileInventory\<close>

text \<open>
  \<open>reconcileInventory\<close> asks for \<^verbatim>\<open>products\<close> as a relation of the record it loads.
  \<^verbatim>\<open>products\<close> is a column, so the load throws, whatever the arguments and the store,
  and nothing after it runs.
\<close>

lemma reconcileInventory_throws:
  "reconcileInventory s inventoryId reconciledProductsData =
     (Inl (EntityPropertyNotFoundError ''products''), s)"
  by (simp add: reconcileInventory_def findOneInventory_def Inventory_relations_def)

subsection \<open>Reconciling twice (claim C6)\<close>




subsection \<open>Reconciling a count (claim C10)\<close>


section \<open>Properties of the list queries (claim C9)\<close>

lemma set_insert_by: "set (insert_by le x xs) = insert x (set xs)"
  by (induction xs) auto

lemma set_orderBy: "set (orderBy le ord rows) = set rows"
proof -
  have "set (foldr (insert_by le) rows []) = set rows"
    by (induction rows) (simp_all add: set_insert_by)
  then show ?thesis
    by (cases ord) (simp_all add: orderBy_def)
qed

lemma paginate_subset:
  assumes "paginate le pagination rows = Inr result"
  shows "set (data result) \<subseteq> set rows"
proof -
  from assms have "\<exists>n k c ord. data result = take n (drop k (orderBy (le c) ord rows))"
    unfolding paginate_def Let_def
    by (cases "((case page pagination of None \<Rightarrow> 1 | Some p \<Rightarrow> p) - 1) *
                 (case limit pagination of None \<Rightarrow> 20 | Some l \<Rightarrow> l) < 0 \<or>
               (case limit pagination of None \<Rightarrow> 20 | Some l \<Rightarrow> l) < 0")
      (simp_all, metis PaginatedResult.select_convs(1))
  then obtain n k c ord where
    "data result = take n (drop k (orderBy (le c) ord rows))"
    by blast
  moreover have "set (take n (drop k (orderBy (le c) ord rows))) \<subseteq> set (orderBy (le c) ord rows)"
    by (meson set_take_subset set_drop_subset subset_trans)
  ultimately show ?thesis by (simp add: set_orderBy)
qed

lemma sql_eq_iff: "sql_eq a b \<longleftrightarrow> (\<exists>x. a = Some x \<and> b = Some x)"
  by (cases a; cases b) auto

lemma getAllSales_rows:
  assumes "getAllSales search le s requester filters pagination = Inr result"
    and "sale \<in> set (data result)"
  shows "sale \<in> set (salesRepository s) \<and> sales_rbac s requester sale \<and>
         sales_filters search s filters sale"
  using paginate_subset [OF assms(1) [unfolded getAllSales_def]] assms(2) by auto

lemma getAllInventories_rows:
  assumes "getAllInventories search le s requester filters pagination = Inr result"
    and "inventory \<in> set (data result)"
  shows "inventory \<in> set (inventoryRepository s) \<and> inventory_rbac s requester inventory \<and>
         inventory_filters search s filters inventory"
  using paginate_subset [OF assms(1) [unfolded getAllInventories_def]] assms(2) by auto

text \<open>
  Claim C9: whatever the filters and the pagination, every row \<open>getAllSales\<close> returns to
  a sales representative is a sale of the table whose \<open>salesPersonId\<close> is the requester's
  id; every row it returns to a store executive is a sale whose sales person belongs to
  the requester's outlet; and every row \<open>getAllInventories\<close> returns to a store executive
  is an inventory of the requester's outlet.
\<close>

theorem list_queries_rbac_isolation:
  "(getAllSales search le s rep_req filters pagination = Inr result \<and>
    req_userType rep_req = SALES_REP \<longrightarrow>
      (\<forall>sale\<in>set (data result).
         sale \<in> set (salesRepository s) \<and> salesPersonId sale = Some (req_id rep_req))) \<and>
   (getAllSales search le s exec_req filters' pagination' = Inr result' \<and>
    req_userType exec_req = STORE_EXECUTIVE \<longrightarrow>
      (\<forall>sale\<in>set (data result').
         sale \<in> set (salesRepository s) \<and>
         (\<exists>outlet. req_outletId exec_req = Some outlet \<and>
                   salesPerson_outletId s sale = Some outlet))) \<and>
   (getAllInventories isearch ile s exec_req ifilters ipagination = Inr iresult \<and>
    req_userType exec_req = STORE_EXECUTIVE \<longrightarrow>
      (\<forall>inventory\<in>set (data iresult).
         inventory \<in> set (inventoryRepository s) \<and>
         req_outletId exec_req = Some (inventory_outletId inventory)))"
proof (intro conjI impI ballI; elim conjE)
  fix sale
  assume q: "getAllSales search le s rep_req filters pagination = Inr result"
    and r: "req_userType rep_req = SALES_REP" and m: "sale \<in> set (data result)"
  from getAllSales_rows [OF q m] r
  show "sale \<in> set (salesRepository s)" and "salesPersonId sale = Some (req_id rep_req)"
    by (simp_all add: sales_rbac_def sql_eq_iff)
next
  fix sale
  assume q: "getAllSales search le s exec_req filters' pagination' = Inr result'"
    and r: "req_userType exec_req = STORE_EXECUTIVE" and m: "sale \<in> set (data result')"
  from getAllSales_rows [OF q m] r
  show "sale \<in> set (salesRepository s)"
    and "\<exists>outlet. req_outletId exec_req = Some outlet \<and> salesPerson_outletId s sale = Some outlet"
    by (auto simp: sales_rbac_def sql_eq_iff)
next
  fix inventory
  assume q: "getAllInventories isearch ile s exec_req ifilters ipagination = Inr iresult"
    and r: "req_userType exec_req = STORE_EXECUTIVE" and m: "inventory \<in> set (data iresult)"
  from getAllInventories_rows [OF q m] r
  show "inventory \<in> set (inventoryRepository s)"
    and "req_outletId exec_req = Some (inventory_outletId inventory)"
    by (auto simp: inventory_rbac_def sql_eq_iff)
qed

lemmas query_defs = getAllSales_def getAllInventories_def paginate_def orderBy_def
  sales_rbac_def sales_filters_def inventory_rbac_def inventory_filters_def
  salesPerson_outletId_def salesPerson_businessId_def salesPersonOf_def inventory_businessId_def
  match_all_def Let_def

text \<open>
  In \<open>chain\<close> the representative of the first outlet sees their own sale only, and the
  store executive of the first outlet sees the sale and the count of that outlet only.
\<close>

theorem list_queries_rbac_isolation_witness:
  "req_userType rep_requester = SALES_REP \<and>
   req_userType exec_requester = STORE_EXECUTIVE \<and>
   map sales_id (salesRepository chain) = [''s1'', ''s2''] \<and>
   map inventory_id (inventoryRepository chain) = [''i1'', ''i2''] \<and>
   map sales_id (data (projr
     (getAllSales match_all sales_by_date chain rep_requester no_sales_filters first_page))) = [''s1''] \<and>
   map sales_id (data (projr
     (getAllSales match_all sales_by_date chain exec_requester no_sales_filters first_page))) = [''s1''] \<and>
   map inventory_id (data (projr
     (getAllInventories match_all inventories_by_date chain exec_requester no_inventory_filters
        first_page))) = [''i1''] \<and>
   list_all (\<lambda>sale. salesPersonId sale = Some ''u1'')
     (data (projr
       (getAllSales match_all sales_by_date chain rep_requester no_sales_filters first_page))) \<and>
   list_all (\<lambda>sale. salesPerson_outletId chain sale = Some ''o1'')
     (data (projr
       (getAllSales match_all sales_by_date chain exec_requester no_sales_filters first_page))) \<and>
   list_all (\<lambda>inventory. inventory_outletId inventory = ''o1'')
     (data (projr
       (getAllInventories match_all inventories_by_date chain exec_requester no_inventory_filters
          first_page)))"
proof -
  let ?q1 = "getAllSales match_all sales_by_date chain rep_requester no_sales_filters first_page"
  let ?q2 = "getAllSales match_all sales_by_date chain exec_requester no_sales_filters first_page"
  let ?q3 = "getAllInventories match_all inventories_by_date chain exec_requester
               no_inventory_filters first_page"
  have r1: "req_userType rep_requester = SALES_REP" by (simp add: rep_requester_def)
  have r2: "req_userType exec_requester = STORE_EXECUTIVE" by (simp add: exec_requester_def)
  have q1: "?q1 = Inr (projr ?q1)" by (simp add: query_defs shop_defs)
  have q2: "?q2 = Inr (projr ?q2)" by (simp add: query_defs shop_defs)
  have q3: "?q3 = Inr (projr ?q3)" by (simp add: query_defs shop_defs)
  have d1: "map sales_id (data (projr ?q1)) = [''s1'']" by (simp add: query_defs shop_defs)
  have d2: "map sales_id (data (projr ?q2)) = [''s1'']" by (simp add: query_defs shop_defs)
  have d3: "map inventory_id (data (projr ?q3)) = [''i1'']" by (simp add: query_defs shop_defs)
  have t1: "map sales_id (salesRepository chain) = [''s1'', ''s2'']" by (simp add: shop_defs)
  have t2: "map inventory_id (inventoryRepository chain) = [''i1'', ''i2'']" by (simp add: shop_defs)
  from list_queries_rbac_isolation [of match_all sales_by_date chain rep_requester
         no_sales_filters first_page "projr ?q1" exec_requester no_sales_filters first_page
         "projr ?q2" match_all inventories_by_date no_inventory_filters first_page "projr ?q3"]
       q1 q2 q3 r1 r2
  have "(\<forall>sale\<in>set (data (projr ?q1)). salesPersonId sale = Some (req_id rep_requester)) \<and>
        (\<forall>sale\<in>set (data (projr ?q2)).
           \<exists>outlet. req_outletId exec_requester = Some outlet \<and>
                    salesPerson_outletId chain sale = Some outlet) \<and>
        (\<forall>inventory\<in>set (data (projr ?q3)).
           req_outletId exec_requester = Some (inventory_outletId inventory))"
    by blast
  then have "(\<forall>sale\<in>set (data (projr ?q1)). salesPersonId sale = Some ''u1'') \<and>
        (\<forall>sale\<in>set (data (projr ?q2)). salesPerson_outletId chain sale = Some ''o1'') \<and>
        (\<forall>inventory\<in>set (data (projr ?q3)). inventory_outletId inventory = ''o1'')"
    by (simp add: rep_requester_def exec_requester_def)
  with r1 r2 t1 t2 d1 d2 d3 show ?thesis by (simp add: list_all_iff)
qed

section \<open>Stock is never negative (claim C2)\<close>

lemma recordSale_loop_nonneg:
  "recordSale_loop oid items tot sps s = (r, s') \<Longrightarrow> stock_nonneg s \<Longrightarrow> stock_nonneg s'"
proof (induction items arbitrary: tot sps s)
  case Nil
  then show ?case by simp
next
  case (Cons item items)
  show ?case
  proof (cases "findProductInOutlet s (item_productId item) oid")
    case None
    with Cons.prems show ?thesis by simp
  next
    case (Some product)
    show ?thesis
    proof (cases "quantity product < item_quantity item")
      case True
      with Some Cons.prems show ?thesis by simp
    next
      case False
      let ?s1 = "saveProduct s (item_productId item)
                   (product\<lparr>quantity := quantity product - item_quantity item\<rparr>)"
      from False Cons.prems(2) have "stock_nonneg ?s1"
        by (auto simp: stock_nonneg_def)
      moreover from Some False Cons.prems(1) have
        "recordSale_loop oid items
           (js_add tot (js_mul (double (price product)) (of_int (item_quantity item))))
           (sps @ [\<lparr>salesId = [], productId = item_productId item, productName = name product,
                    sp_quantity = item_quantity item, priceAtSale = price product\<rparr>]) ?s1 = (r, s')"
        by simp
      ultimately show ?thesis by (rule Cons.IH [rotated])
    qed
  qed
qed

lemma recordSale_preserves:
  assumes "stock_nonneg s" and "lines_valid s"
    and "list_all (\<lambda>item. 1 \<le> item_quantity item) (sd_products saleData)"
  shows "stock_nonneg (snd (recordSale s newId now spid saleData)) \<and>
         lines_valid (snd (recordSale s newId now spid saleData))"
proof (cases "userRepository s spid")
  case None
  with assms show ?thesis by (simp add: recordSale_def)
next
  case (Some u)
  obtain r s1 where loop: "recordSale_loop (user_outletId u) (sd_products saleData) 0 [] s = (r, s1)"
    by (cases "recordSale_loop (user_outletId u) (sd_products saleData) 0 [] s")
  from recordSale_loop_nonneg [OF loop assms(1)] have n1: "stock_nonneg s1" .
  from recordSale_loop_same_rows [OF loop] assms(2) have v1: "lines_valid s1"
    by (simp add: same_rows_def lines_valid_def)
  show ?thesis
  proof (cases r)
    case (Inl e)
    with Some loop n1 v1 show ?thesis by (simp add: recordSale_def)
  next
    case (Inr res)
    obtain tot sps where res: "res = (tot, sps)" by (cases res)
    from recordSale_loop_lines [OF loop [unfolded Inr res]] have
      "map sp_quantity sps = map item_quantity (sd_products saleData)"
      by auto
    with assms(3) have "list_all (\<lambda>sp. 1 \<le> sp_quantity sp) sps"
      by (metis (mono_tags, lifting) list.pred_map list.pred_mono_strong comp_apply list.map_comp
            list_all_iff list.set_map imageE imageI)
    with Some loop Inr res n1 v1 show ?thesis
      by (auto simp: recordSale_def Let_def insertSale_def cascadeLines_def stock_nonneg_def
            lines_valid_def list_all_iff)
  qed
qed

lemma returned_nonneg:
  "list_all (\<lambda>sp. 1 \<le> sp_quantity sp) sps \<Longrightarrow> 0 \<le> returned sps pid"
  by (induction sps) auto

lemma restock_nonneg:
  assumes "stock_nonneg s" and "list_all (\<lambda>sp. 1 \<le> sp_quantity sp) sps"
  shows "stock_nonneg (restock sps s)"
  unfolding stock_nonneg_def
proof (intro allI impI)
  fix pid p
  assume "productRepository (restock sps s) pid = Some p"
  then obtain p0 where p0: "productRepository s pid = Some p0"
    and p: "p = p0\<lparr>quantity := quantity p0 + returned sps pid\<rparr>"
    by (auto simp: restock_stock)
  from assms(1) p0 have "0 \<le> quantity p0" by (simp add: stock_nonneg_def)
  with returned_nonneg [OF assms(2), of pid] show "0 \<le> quantity p" by (simp add: p)
qed

lemma updateSaleStatus_preserves:
  assumes "stock_nonneg s" and "lines_valid s"
  shows "stock_nonneg (snd (updateSaleStatus s saleId newStatus)) \<and>
         lines_valid (snd (updateSaleStatus s saleId newStatus))"
proof (cases "findSale s saleId")
  case None
  with assms show ?thesis by (simp add: updateSaleStatus_def)
next
  case (Some sale)
  let ?sps = "findSalesProducts s (sales_id sale)"
  from assms(2) have "list_all (\<lambda>sp. 1 \<le> sp_quantity sp) ?sps"
    by (simp add: lines_valid_def findSalesProducts_def list_all_iff)
  from restock_nonneg [OF assms(1) this] have n: "stock_nonneg (restock ?sps s)" .
  from restock_same_rows [of s ?sps] assms(2) have v: "lines_valid (restock ?sps s)"
    by (simp add: same_rows_def lines_valid_def)
  from Some assms n v show ?thesis
    by (simp add: updateSaleStatus_def Let_def saveSale_def stock_nonneg_def lines_valid_def)
qed

lemma recordInventory_preserves:
  assumes "stock_nonneg s" and "lines_valid s"
  shows "stock_nonneg (snd (recordInventory s newId now oid aid productsData)) \<and>
         lines_valid (snd (recordInventory s newId now oid aid productsData))"
  using assms
  by (simp add: recordInventory_def Let_def stock_nonneg_def lines_valid_def
        split: option.splits sum.splits)

lemma reconcileInventory_preserves:
  assumes "stock_nonneg s" and "lines_valid s"
  shows "stock_nonneg (snd (reconcileInventory s inventoryId rps)) \<and>
         lines_valid (snd (reconcileInventory s inventoryId rps))"
  using assms by (simp add: reconcileInventory_throws)

lemma perform_preserves:
  assumes "stock_nonneg s" and "lines_valid s" and "validated op"
  shows "stock_nonneg (perform op s) \<and> lines_valid (perform op s)"
proof (cases op)
  case (RecordSale newId now spid saleData)
  with assms recordSale_preserves [of s saleData newId now spid] show ?thesis by simp
next
  case (UpdateSaleStatus saleId newStatus)
  with assms updateSaleStatus_preserves [of s saleId newStatus] show ?thesis by simp
next
  case (RecordInventory newId now oid aid productsData)
  with assms recordInventory_preserves [of s newId now oid aid productsData] show ?thesis by simp
next
  case (ReconcileInventory inventoryId rps)
  with assms reconcileInventory_preserves [of s inventoryId rps] show ?thesis by simp
qed

lemma fold_perform_preserves:
  "stock_nonneg s \<Longrightarrow> lines_valid s \<Longrightarrow> list_all validated ops \<Longrightarrow>
   stock_nonneg (fold perform ops s) \<and> lines_valid (fold perform ops s)"
proof (induction ops arbitrary: s)
  case Nil
  then show ?case by simp
next
  case (Cons op ops)
  from Cons.prems have "stock_nonneg (perform op s) \<and> lines_valid (perform op s)"
    by (intro perform_preserves) simp_all
  with Cons.prems Cons.IH [of "perform op s"] show ?case by simp
qed

text \<open>
  Claim C2 says that from a store in which no product has a negative quantity, any
  sequence of \<open>recordSale\<close>, \<open>updateSaleStatus\<close>, \<open>recordInventory\<close> and
  \<open>reconcileInventory\<close> with validated inputs (every sale line of a request has a
  quantity of at least 1, every \<open>reconciledQuantity\<close> is at least 0) leads to a store in
  which no product has a negative quantity. A return adds back the quantities of the sale
  lines the store already holds, so the claim needs them to be sound too. What holds is
  this: if, in the store the sequence starts from, no product has a negative quantity and
  every stored sale line has a quantity of at least 1, then no product has a negative
  quantity in the store that results, whether the operations returned or threw.
\<close>

theorem stock_never_negative:
  assumes "stock_nonneg s" and "lines_valid s" and "list_all validated ops"
  shows "stock_nonneg (fold perform ops s)"
  using fold_perform_preserves [OF assms] by simp

text \<open>
  A day in the shop, failed sale and failed reconciliation included, ends with seven teas
  and no negative quantity.
\<close>

theorem stock_never_negative_witness:
  "stock_nonneg shop \<and> lines_valid shop \<and> list_all validated a_day \<and>
   stock_nonneg (fold perform a_day shop) \<and>
   map_option quantity (productRepository (fold perform a_day shop) ''p1'') = Some 7"
proof -
  have h1: "stock_nonneg shop"
    by (auto simp: stock_nonneg_def shop_defs split: if_splits)
  have h2: "lines_valid shop"
    by (simp add: lines_valid_def shop_def)
  have h3: "list_all validated a_day"
    by (simp add: a_day_def three_teas_def teas_and_mugs_def)
  have fin: "map_option quantity (productRepository (fold perform a_day shop) ''p1'') = Some 7"
    by (simp add: a_day_def recordSale_def findProductInOutlet_def insertSale_def createSale_def
          cascadeLines_def updateSaleStatus_def findSale_def
          findSalesProducts_def saveSale_def recordInventory_def reconcileInventory_throws
          Let_def shop_defs)
  from stock_never_negative [OF h1 h2 h3] h1 h2 h3 fin show ?thesis by simp
qed

text \<open>
  Against claim C2 as stated: \<open>odd_shop\<close> has three teas and no negative quantity, and
  its completed sale has a line of quantity \<open>-5\<close>. Returning that sale is a validated
  request, and it leaves the tea at \<open>-2\<close>.
\<close>

theorem stock_never_negative_counterexample:
  "stock_nonneg odd_shop \<and>
   list_all validated [UpdateSaleStatus ''s1'' RETURNED] \<and>
   map_option quantity
     (productRepository (fold perform [UpdateSaleStatus ''s1'' RETURNED] odd_shop) ''p1'')
     = Some (- 2) \<and>
   \<not> stock_nonneg (fold perform [UpdateSaleStatus ''s1'' RETURNED] odd_shop)"
proof -
  have h1: "stock_nonneg odd_shop"
    by (auto simp: stock_nonneg_def shop_defs split: if_splits)
  have fin: "productRepository (fold perform [UpdateSaleStatus ''s1'' RETURNED] odd_shop) ''p1''
               = Some (tea\<lparr>quantity := - 2\<rparr>)"
    by (simp add: updateSaleStatus_def findSale_def findSalesProducts_def saveSale_def
          Let_def shop_defs)
  have "\<not> stock_nonneg (fold perform [UpdateSaleStatus ''s1'' RETURNED] odd_shop)"
  proof
    assume "stock_nonneg (fold perform [UpdateSaleStatus ''s1'' RETURNED] odd_shop)"
    with fin have "0 \<le> quantity (tea\<lparr>quantity := - 2\<rparr>)"
      unfolding stock_nonneg_def by blast
    then show False by simp
  qed
  with h1 fin show ?thesis by simp
qed

end
